theory Spec2Isabelle
  imports Complex_Main "HOL-Library.Sublist" "HOL-Library.AList"
begin

section \<open>Values shared by the pages and components\<close>

text \<open>
  JavaScript strings are modelled as \<^typ>\<open>string\<close>, holding the UTF-8 bytes of the text
  (a character beyond ASCII is several \<^typ>\<open>char\<close>s). JavaScript numbers that carry a
  confidence are modelled as \<^typ>\<open>real\<close>: a decimal literal of the source denotes its
  decimal value, and \<open>>=\<close> and \<open><\<close> are the order on the reals. Sizes and clock readings
  are \<^typ>\<open>nat\<close>. An optional argument or field (\<open>x?: T\<close>, \<open>T | null\<close>) is a
  \<^typ>\<open>'a option\<close>, \<open>undefined\<close> and \<open>null\<close> being \<^const>\<open>None\<close>.
\<close>

record Source =
  title :: string
  url :: string
  snippet :: string

record QueryResult =
  answer :: string
  confidence :: real
  actions :: "string list"
  sources :: "Source list"

text \<open>The browser's \<open>File\<close>: the three properties the code reads.\<close>

record File =
  file_name :: string
  file_type :: string
  file_size :: nat

text \<open>\<open>new File([], 'image')\<close>: no bytes, the given name, an empty MIME type.\<close>

definition new_File :: "string \<Rightarrow> File" where
  "new_File n = \<lparr>file_name = n, file_type = [], file_size = 0\<rparr>"

text \<open>
  The third argument the input component hands to \<open>onQuery\<close>:
  \<open>{ showHelpCard?: boolean; result?: QueryResult }\<close>.
\<close>

record Options =
  opt_showHelpCard :: "bool option"
  opt_result :: "QueryResult option"

subsection \<open>String operations of the runtime\<close>

text \<open>
  \<open>String.prototype.toLowerCase\<close>, on the ASCII letters: the keywords the code looks for
  are ASCII, and no byte of a multi-byte UTF-8 sequence is an ASCII letter.
\<close>

definition toLowerCase_char :: "char \<Rightarrow> char" where
  "toLowerCase_char c =
     (case map_of (zip ''ABCDEFGHIJKLMNOPQRSTUVWXYZ'' ''abcdefghijklmnopqrstuvwxyz'') c of
        Some l \<Rightarrow> l
      | None \<Rightarrow> c)"

definition toLowerCase :: "string \<Rightarrow> string" where
  "toLowerCase s = map toLowerCase_char s"

text \<open>\<open>s.includes(k)\<close>: \<open>k\<close> occurs in \<open>s\<close> as a contiguous run.\<close>

fun str_includes :: "string \<Rightarrow> string \<Rightarrow> bool" where
  "str_includes [] k = (k = [])"
| "str_includes (c # cs) k = (prefix k (c # cs) \<or> str_includes cs k)"

text \<open>\<open>s.startsWith(p)\<close>.\<close>

definition startsWith :: "string \<Rightarrow> string \<Rightarrow> bool" where
  "startsWith s p = prefix p s"

text \<open>Truthiness of an optional string: \<open>undefined\<close> and \<open>''\<close> are falsy.\<close>

fun truthy_str :: "string option \<Rightarrow> bool" where
  "truthy_str None = False"
| "truthy_str (Some s) = (s \<noteq> [])"

text \<open>The decimal digits of a number, as a template literal renders \<open>Date.now()\<close>.\<close>

definition digit_char :: "nat \<Rightarrow> char" where
  "digit_char d = ''0123456789'' ! (d mod 10)"

fun show_nat :: "nat \<Rightarrow> string" where
  "show_nat n = (if n < 10 then [digit_char n] else show_nat (n div 10) @ [digit_char n])"

declare show_nat.simps [simp del]

section \<open>The home page: \<open>Index\<close>\<close>

text \<open>
  The canned results of \<open>handleQuery\<close>, the dictionary \<open>mockResults\<close>. A key that is
  not in the dictionary reads as \<open>undefined\<close>.
\<close>

definition mockResults :: "string \<rightharpoonup> QueryResult" where
  "mockResults = map_of
    [(''irrigation'',
      \<lparr>answer = ''For wheat crops in winter, irrigate every 15-20 days based on soil moisture at 2-3 inch depth.'',
       confidence = 0.85,
       actions = [''Check soil moisture'', ''Water early morning'', ''Monitor weather forecast''],
       sources =
        [\<lparr>title = ''IMD Weather Forecast'',
          url = ''https://mausam.imd.gov.in'',
          snippet = ''Minimal rainfall expected this week. Soil moisture levels dropping in Northern Plains.''\<rparr>,
         \<lparr>title = ''Agricultural Guidelines - Wheat'',
          url = ''https://farmer.gov.in/wheat'',
          snippet = ''Wheat requires 4-6 irrigations during its growth cycle, with critical stages being crown root initiation and grain filling.''\<rparr>]\<rparr>),
     (''fertilizer'',
      \<lparr>answer = ''Apply NPK 12:32:16 at 100kg/acre during tillering stage with organic compost.'',
       confidence = 0.78,
       actions = [''Soil test first'', ''Apply in morning'', ''Water after application''],
       sources =
        [\<lparr>title = ''Soil Health Card'',
          url = ''https://soilhealth.dac.gov.in'',
          snippet = ''Current soil analysis shows nitrogen deficiency in your region. Phosphorus levels adequate.''\<rparr>,
         \<lparr>title = ''PM-KISAN Fertilizer Subsidy'',
          url = ''https://pmkisan.gov.in'',
          snippet = ''Eligible farmers can get subsidized fertilizer through registered dealers. Apply with Aadhaar.''\<rparr>]\<rparr>),
     (''pest'',
      \<lparr>answer = ''Likely aphid infestation detected. Apply neem oil spray in evening for 3 days.'',
       confidence = 0.65,
       actions = [''Apply neem oil'', ''Remove affected leaves'', ''Consult KVK expert''],
       sources =
        [\<lparr>title = ''Pest Management Guide'',
          url = ''https://agricoop.nic.in/pest'',
          snippet = ''Aphids are common in post-winter crops. Early detection and organic treatment prevent yield loss.''\<rparr>,
         \<lparr>title = ''PMFBY Crop Insurance'',
          url = ''https://pmfby.gov.in'',
          snippet = ''Pest damage covered under crop insurance. Report to local agriculture officer within 72 hours.''\<rparr>]\<rparr>)]"

text \<open>
  "Determine response based on query content": the default, then the two keyword tests on
  the lowercased text. A \<open>File\<close> object is always truthy.
\<close>

definition selectedResult :: "string \<Rightarrow> File option \<Rightarrow> QueryResult option" where
  "selectedResult qtext imageFile =
     (let lowerText = toLowerCase qtext in
      if str_includes lowerText ''pest'' \<or> str_includes lowerText ''insect''
         \<or> str_includes lowerText ''bug'' \<or> imageFile \<noteq> None
      then mockResults ''pest''
      else if str_includes lowerText ''fertilizer'' \<or> str_includes lowerText ''nutrient''
         \<or> str_includes lowerText ''nitrogen''
      then mockResults ''fertilizer''
      else mockResults ''irrigation'')"

text \<open>
  The component state of \<open>Index\<close> and the writes a handler makes to it, in order.
  \<open>Sleep n\<close> is \<open>await new Promise(resolve => setTimeout(resolve, n))\<close>.
\<close>

datatype Tab = TabQuery | TabPolicy | TabChem | TabCommunity

record IndexState =
  result :: "QueryResult option"
  isLoading :: bool
  showHelpCard :: bool
  activeTab :: Tab

datatype IndexAction =
    SetIsLoading bool
  | SetResult "QueryResult option"
  | SetShowHelpCard bool
  | Sleep nat

text \<open>\<open>handleQuery\<close> of the home page that takes the options of the input component.\<close>

definition Index_handleQuery ::
  "string \<Rightarrow> File option \<Rightarrow> Options option \<Rightarrow> IndexAction list" where
  "Index_handleQuery qtext imageFile options =
     [SetIsLoading True] @
     (case Option.bind options opt_result of
        Some r \<Rightarrow>
          [SetResult (Some r),
           SetShowHelpCard
             (case Option.bind options opt_showHelpCard of Some b \<Rightarrow> b | None \<Rightarrow> False)]
      | None \<Rightarrow> [Sleep 1500, SetResult (selectedResult qtext imageFile)]) @
     [SetIsLoading False]"

text \<open>
  \<open>handleQuery\<close> of \<open>pages/Index.tsx\<close>: two parameters, so a third argument is
  never read.
\<close>

definition IndexLegacy_handleQuery ::
  "string \<Rightarrow> File option \<Rightarrow> Options option \<Rightarrow> IndexAction list" where
  "IndexLegacy_handleQuery qtext imageFile options =
     [SetIsLoading True, Sleep 1500, SetResult (selectedResult qtext imageFile),
      SetIsLoading False]"

fun Index_apply :: "IndexAction \<Rightarrow> IndexState \<Rightarrow> IndexState" where
  "Index_apply (SetIsLoading b) st = st\<lparr>isLoading := b\<rparr>"
| "Index_apply (SetResult r) st = st\<lparr>result := r\<rparr>"
| "Index_apply (SetShowHelpCard b) st = st\<lparr>showHelpCard := b\<rparr>"
| "Index_apply (Sleep n) st = st"

definition Index_run :: "IndexAction list \<Rightarrow> IndexState \<Rightarrow> IndexState" where
  "Index_run acts st = fold Index_apply acts st"

text \<open>
  What \<open>Index\<close> renders below the header, section by section: the input with its quick
  prompts, the help card under \<open>showHelpCard &&\<close>, the result card with the tab bar and
  the open tab under \<open>result &&\<close>, the tips under \<open>!result && !isLoading\<close>.
\<close>

datatype Section =
    QueryInputSection
  | QuickPrompts
  | HelpCard
  | ResultCardSection QueryResult
  | TabNavigation
  | TabContent Tab
  | QuickTips

definition Index_render :: "IndexState \<Rightarrow> Section list" where
  "Index_render st =
     [QueryInputSection, QuickPrompts] @
     (if showHelpCard st then [HelpCard] else []) @
     (case result st of
        Some r \<Rightarrow> [ResultCardSection r, TabNavigation, TabContent (activeTab st)]
      | None \<Rightarrow> []) @
     (if result st = None \<and> \<not> isLoading st then [QuickTips] else [])"

section \<open>The routed query page: \<open>QueryPage\<close>\<close>

record QueryPageState =
  qp_result :: "QueryResult option"
  qp_isLoading :: bool

datatype QueryPageAction =
    QP_SetIsLoading bool
  | QP_SetResult "QueryResult option"
  | QP_Sleep nat

text \<open>
  \<open>handleQuery\<close> of \<open>QueryPage\<close>. Its options type is \<open>{ result?: QueryResult }\<close>: the
  object it gets at run time may carry \<open>showHelpCard\<close>, which the body never reads.
\<close>

definition QueryPage_handleQuery ::
  "string \<Rightarrow> File option \<Rightarrow> Options option \<Rightarrow> QueryPageAction list" where
  "QueryPage_handleQuery qtext imageFile options =
     [QP_SetIsLoading True] @
     (case Option.bind options opt_result of
        Some r \<Rightarrow> [QP_SetResult (Some r)]
      | None \<Rightarrow>
          [QP_Sleep 600,
           QP_SetResult (Some
             \<lparr>answer = ''Answer for: '' @ qtext,
              confidence = 0.7,
              actions = [''Check soil moisture'', ''Review weather'', ''Plan irrigation''],
              sources =
                [\<lparr>title = ''IMD'', url = ''https://mausam.imd.gov.in'',
                  snippet = ''Official weather service''\<rparr>]\<rparr>)]) @
     [QP_SetIsLoading False]"

fun QueryPage_apply :: "QueryPageAction \<Rightarrow> QueryPageState \<Rightarrow> QueryPageState" where
  "QueryPage_apply (QP_SetIsLoading b) st = st\<lparr>qp_isLoading := b\<rparr>"
| "QueryPage_apply (QP_SetResult r) st = st\<lparr>qp_result := r\<rparr>"
| "QueryPage_apply (QP_Sleep n) st = st"

definition QueryPage_run :: "QueryPageAction list \<Rightarrow> QueryPageState \<Rightarrow> QueryPageState" where
  "QueryPage_run acts st = fold QueryPage_apply acts st"

section \<open>The result card\<close>

text \<open>
  The three confidence helpers of \<open>ResultCard\<close>. The icon is the component and its class
  name; the text goes through the translation function \<open>t\<close> of the card.
\<close>

definition getConfidenceColor :: "real \<Rightarrow> string" where
  "getConfidenceColor c =
     (if c \<ge> 0.7 then ''bg-gradient-confidence-high''
      else if c \<ge> 0.4 then ''bg-gradient-confidence-medium''
      else ''bg-gradient-confidence-low'')"

definition getConfidenceIcon :: "real \<Rightarrow> string \<times> string" where
  "getConfidenceIcon c =
     (if c \<ge> 0.7 then (''CheckCircle'', ''h-5 w-5 text-success'')
      else if c \<ge> 0.4 then (''AlertTriangle'', ''h-5 w-5 text-warning'')
      else (''XCircle'', ''h-5 w-5 text-destructive''))"

definition getConfidenceText :: "(string \<Rightarrow> string) \<Rightarrow> real \<Rightarrow> string" where
  "getConfidenceText t c =
     (if c \<ge> 0.7 then t ''confidence.high''
      else if c \<ge> 0.4 then t ''confidence.medium''
      else t ''confidence.low'')"

text \<open>
  The English resources of the translation table, for the keys these components use; a
  key without an entry is rendered as the key itself.
\<close>

definition resources_en :: "(string \<times> string) list" where
  "resources_en =
     [(''image.upload'', ''Upload crop image''),
      (''image.analyzing'', ''Analyzing crop image for diseases and issues...''),
      (''image.error'', ''Image upload error''),
      (''image.invalidType'', ''Please upload a valid image file''),
      (''image.tooLarge'', ''Image file too large (max 5MB)''),
      (''confidence.label'', ''Confidence''),
      (''confidence.high'', ''High''),
      (''confidence.medium'', ''Medium''),
      (''confidence.low'', ''Low'')]"

definition t_en :: "string \<Rightarrow> string" where
  "t_en k = (case map_of resources_en k of Some v \<Rightarrow> v | None \<Rightarrow> k)"

section \<open>The world the components run in\<close>

text \<open>
  A request either fails before a body is read (the fetch rejects, the status is not ok,
  the body is not JSON) or yields the parsed body, which the code holds as \<open>any\<close>. The
  body is \<open>null\<close> (\<open>OkNull\<close>), one of the falsy values \<open>false\<close>, \<open>0\<close> and \<open>''\<close>
  (\<open>OkFalsy\<close>), or truthy (\<open>Ok\<close>); a truthy body is taken to be an object of the shape
  the handlers declare for it.
\<close>

datatype Falsy = JsonFalse | JsonZero | JsonEmptyString

datatype 'a FetchOutcome = NetworkError | NotOk | BadJson | OkNull | OkFalsy Falsy | Ok 'a

text \<open>The parsed body of a response to \<open>POST /api/query\<close>, as a value that is stored.\<close>

datatype Body = JsonNull | JsonFalsy Falsy | JsonResult QueryResult

text \<open>The body of \<open>POST /api/query\<close>.\<close>

record QueryRequest =
  user_id :: string
  text_field :: string
  lang_field :: string
  image_id :: "string option"

text \<open>
  The storage client answers an upload with \<open>{ data, error }\<close>: an error, or the stored
  path \<open>data.path\<close>.
\<close>

datatype UploadOutcome = UploadError | Uploaded string

subsection \<open>The on-device database\<close>

record LogEntry =
  query :: string
  response :: Body
  timestamp :: string
  lang :: string

text \<open>
  An object store: its key path, whether it has a key generator, its indexes (name and
  key path), the generator's next key, and the records in the order they were added, each
  under its key.
\<close>

record ObjectStore =
  keyPath :: string
  autoIncrement :: bool
  indexes :: "(string \<times> string) list"
  keyGenerator :: nat
  records :: "(nat \<times> LogEntry) list"

text \<open>The database \<open>FarmGuruQueries\<close>: version 0 is a database that does not exist yet.\<close>

record IDB =
  idb_version :: nat
  objectStores :: "(string \<times> ObjectStore) list"

datatype IDBError = OpenError | VersionError | NotFoundError | DataError | QuotaExceededError

record Env =
  t :: "string \<Rightarrow> string"
  language :: string
  VITE_API_URL :: "string option"
  now :: nat
  nowISO :: string
  fetch_query :: "QueryRequest \<Rightarrow> QueryResult FetchOutcome"
  upload :: "string \<Rightarrow> string \<Rightarrow> File \<Rightarrow> UploadOutcome"
  getPublicUrl :: "string \<Rightarrow> string \<Rightarrow> string"
  idb_open_ok :: bool
  idb_add_ok :: bool

text \<open>
  \<open>createObjectStore('queries', { keyPath: 'id', autoIncrement: true })\<close> followed by
  \<open>createIndex('timestamp', 'timestamp')\<close>; a key generator starts at 1.
\<close>

definition upgrade :: "IDB \<Rightarrow> IDB" where
  "upgrade db =
     (if map_of (objectStores db) ''queries'' = None
      then db\<lparr>objectStores :=
             (''queries'',
              \<lparr>keyPath = ''id'', autoIncrement = True,
               indexes = [(''timestamp'', ''timestamp'')],
               keyGenerator = 1, records = []\<rparr>) # objectStores db\<rparr>
      else db)"

text \<open>
  \<open>openDB('FarmGuruQueries', 1, { upgrade })\<close>: fails where the environment has no
  database or the stored version is newer; runs \<open>upgrade\<close> when the stored version is
  older.
\<close>

definition openDB :: "Env \<Rightarrow> IDB \<Rightarrow> IDBError + IDB" where
  "openDB env db =
     (if \<not> idb_open_ok env then Inl OpenError
      else if idb_version db > 1 then Inl VersionError
      else if idb_version db < 1 then Inr ((upgrade db)\<lparr>idb_version := 1\<rparr>)
      else Inr db)"

text \<open>
  \<open>db.add(store, value)\<close> for a value without an \<open>id\<close>: the store must exist and
  generate keys, and the write must fit the quota.
\<close>

definition db_add :: "Env \<Rightarrow> string \<Rightarrow> LogEntry \<Rightarrow> IDB \<Rightarrow> IDBError + IDB" where
  "db_add env name v db =
     (case map_of (objectStores db) name of
        None \<Rightarrow> Inl NotFoundError
      | Some st \<Rightarrow>
          if \<not> autoIncrement st then Inl DataError
          else if \<not> idb_add_ok env then Inl QuotaExceededError
          else Inr (db\<lparr>objectStores :=
                  AList.update name
                    (st\<lparr>records := records st @ [(keyGenerator st, v)],
                       keyGenerator := keyGenerator st + 1\<rparr>)
                    (objectStores db)\<rparr>))"

section \<open>The input component: \<open>QueryInput\<close>\<close>

text \<open>What the component does to the outside, in order.\<close>

datatype Effect =
    Toast string string string
  | ConsoleError string
  | SetText string
  | SetUploadingImage bool
  | StorageUpload string string File
  | Fetch string QueryRequest
  | OnQuery string "File option" "Options option"

text \<open>The literal of line 159, byte for byte as the source file has it.\<close>

definition sentinel :: string where
  "sentinel = ''I don't know '' @
     [CHR 0xC3, CHR 0xA2, CHR 0xE2, CHR 0x82, CHR 0xAC, CHR 0xE2, CHR 0x80, CHR 0x9D] @
     '' please consult a local expert.''"

definition logQueryToIndexedDB ::
  "Env \<Rightarrow> string \<Rightarrow> Body \<Rightarrow> IDB \<Rightarrow> Effect list \<times> IDB" where
  "logQueryToIndexedDB env q resp db =
     (case openDB env db of
        Inl e \<Rightarrow> ([ConsoleError ''IndexedDB logging error:''], db)
      | Inr db1 \<Rightarrow>
          (case db_add env ''queries''
                  \<lparr>query = q, response = resp, timestamp = nowISO env, lang = language env\<rparr>
                  db1 of
             Inl e \<Rightarrow> ([ConsoleError ''IndexedDB logging error:''], db1)
           | Inr db2 \<Rightarrow> ([], db2)))"

text \<open>
  \<open>handleRealQuery\<close>. The body is logged before \<open>result.answer\<close> is read: reading it
  of \<open>null\<close> throws, which the \<open>catch\<close> turns into the fallback call; of a falsy value
  it is \<open>undefined\<close>, and the page gets options whose \<open>result\<close> is falsy, which an
  \<^typ>\<open>Options\<close> value holds as \<^const>\<open>None\<close>.
\<close>

definition handleRealQuery ::
  "Env \<Rightarrow> string \<Rightarrow> string option \<Rightarrow> IDB \<Rightarrow> Effect list \<times> IDB" where
  "handleRealQuery env queryText imageId db =
     (let apiUrl = (case VITE_API_URL env of Some u \<Rightarrow> u | None \<Rightarrow> []);
          body = \<lparr>user_id = ''anonymous'', text_field = queryText,
                  lang_field = language env, image_id = imageId\<rparr>
      in case fetch_query env body of
           Ok r \<Rightarrow>
             (let (logged, db') = logQueryToIndexedDB env queryText (JsonResult r) db
              in ([Fetch (apiUrl @ ''/api/query'') body] @ logged @
                  [if answer r = sentinel
                   then OnQuery queryText None
                          (Some \<lparr>opt_showHelpCard = Some True, opt_result = Some r\<rparr>)
                   else OnQuery queryText None
                          (Some \<lparr>opt_showHelpCard = None, opt_result = Some r\<rparr>)],
                  db'))
         | OkNull \<Rightarrow>
             (let (logged, db') = logQueryToIndexedDB env queryText JsonNull db
              in ([Fetch (apiUrl @ ''/api/query'') body] @ logged @
                  [ConsoleError ''Query error:'',
                   OnQuery queryText
                     (if truthy_str imageId then Some (new_File ''image'') else None) None],
                  db'))
         | OkFalsy v \<Rightarrow>
             (let (logged, db') = logQueryToIndexedDB env queryText (JsonFalsy v) db
              in ([Fetch (apiUrl @ ''/api/query'') body] @ logged @
                  [OnQuery queryText None
                     (Some \<lparr>opt_showHelpCard = None, opt_result = None\<rparr>)],
                  db'))
         | _ \<Rightarrow>
             ([Fetch (apiUrl @ ''/api/query'') body,
               ConsoleError ''Query error:'',
               OnQuery queryText
                 (if truthy_str imageId then Some (new_File ''image'') else None) None],
              db))"

definition uploadImageToSupabase :: "Env \<Rightarrow> File \<Rightarrow> IDB \<Rightarrow> Effect list \<times> IDB" where
  "uploadImageToSupabase env file db =
     (let fileName = show_nat (now env) @ ''-'' @ file_name file;
          filePath = ''uploads/'' @ fileName
      in case upload env ''farm-images'' filePath file of
           UploadError \<Rightarrow>
             ([SetUploadingImage True,
               StorageUpload ''farm-images'' filePath file,
               ConsoleError ''Image upload error:'',
               Toast (t env ''image.error'') ''Failed to upload image. Please try again.''
                 ''destructive'',
               SetUploadingImage False],
              db)
         | Uploaded path \<Rightarrow>
             (let publicUrl = getPublicUrl env ''farm-images'' path;
                  (effs, db') = handleRealQuery env (t env ''image.analyzing'') (Some publicUrl) db
              in ([SetUploadingImage True,
                   StorageUpload ''farm-images'' filePath file,
                   SetText (t env ''image.analyzing'')] @ effs @
                  [SetUploadingImage False],
                  db')))"

text \<open>\<open>handleImageUpload\<close>: \<open>event.target.files?.[0]\<close> is the file, if one was chosen.\<close>

definition handleImageUpload :: "Env \<Rightarrow> File option \<Rightarrow> IDB \<Rightarrow> Effect list \<times> IDB" where
  "handleImageUpload env chosen db =
     (case chosen of
        None \<Rightarrow> ([], db)
      | Some file \<Rightarrow>
          if \<not> startsWith (file_type file) ''image/''
          then ([Toast (t env ''image.error'') (t env ''image.invalidType'') ''destructive''], db)
          else if file_size file > 5 * 1024 * 1024
          then ([Toast (t env ''image.error'') (t env ''image.tooLarge'') ''destructive''], db)
          else uploadImageToSupabase env file db)"

text \<open>
  The pages mount the component as \<open><QueryInput onQuery={handleQuery} ... />\<close>: every
  \<open>onQuery\<close> call of the component runs the page's handler.
\<close>

fun Index_onQuery :: "Effect \<Rightarrow> IndexState \<Rightarrow> IndexState" where
  "Index_onQuery (OnQuery q f opts) st = Index_run (Index_handleQuery q f opts) st"
| "Index_onQuery _ st = st"

definition Index_deliver :: "Effect list \<Rightarrow> IndexState \<Rightarrow> IndexState" where
  "Index_deliver effs st = fold Index_onQuery effs st"

fun IndexLegacy_onQuery :: "Effect \<Rightarrow> IndexState \<Rightarrow> IndexState" where
  "IndexLegacy_onQuery (OnQuery q f opts) st = Index_run (IndexLegacy_handleQuery q f opts) st"
| "IndexLegacy_onQuery _ st = st"

definition IndexLegacy_deliver :: "Effect list \<Rightarrow> IndexState \<Rightarrow> IndexState" where
  "IndexLegacy_deliver effs st = fold IndexLegacy_onQuery effs st"

fun QueryPage_onQuery :: "Effect \<Rightarrow> QueryPageState \<Rightarrow> QueryPageState" where
  "QueryPage_onQuery (OnQuery q f opts) st = QueryPage_run (QueryPage_handleQuery q f opts) st"
| "QueryPage_onQuery _ st = st"

definition QueryPage_deliver :: "Effect list \<Rightarrow> QueryPageState \<Rightarrow> QueryPageState" where
  "QueryPage_deliver effs st = fold QueryPage_onQuery effs st"

section \<open>The treatment recommender: \<open>ChemRecommender\<close>\<close>

record Meta =
  meta_crop :: string
  symptom_category :: string
  meta_image_id :: "string option"

record ChemRecommendation =
  recommendation_text :: string
  chem_confidence :: real
  chem_sources :: "Source list"
  next_steps :: "string list"
  safety_notice :: string
  meta :: Meta

text \<open>The body of \<open>POST /api/chem-reco\<close>.\<close>

record ChemRequest =
  req_crop :: string
  req_symptom :: string
  req_image_id :: "string option"
  req_user_id :: "string option"

text \<open>
  The props \<open>crop\<close> (default \<open>''\<close>) and \<open>userId\<close>, and what the recommender needs
  of the world: the clock, the storage client and the endpoint.
\<close>

record ChemEnv =
  crop :: string
  userId :: "string option"
  chem_VITE_API_URL :: "string option"
  chem_now :: nat
  chem_upload :: "string \<Rightarrow> string \<Rightarrow> File \<Rightarrow> UploadOutcome"
  chem_getPublicUrl :: "string \<Rightarrow> string \<Rightarrow> string"
  fetch_chem :: "ChemRequest \<Rightarrow> ChemRecommendation FetchOutcome"

datatype ChemEffect =
    CToast string string string
  | CConsoleError string
  | CSetLoading bool
  | CSetUploadProgress nat
  | CSetImageUrl "string option"
  | CSetRecommendation "ChemRecommendation option"
  | CStorageUpload string string File
  | CFetch string ChemRequest

text \<open>
  \<open>getRecommendation\<close>. A body that is \<open>null\<close> or falsy is stored as it is and reads as
  no recommendation.
\<close>

definition getRecommendation :: "ChemEnv \<Rightarrow> string \<Rightarrow> string option \<Rightarrow> ChemEffect list" where
  "getRecommendation env symptomText imageId =
     (let apiUrl = (case chem_VITE_API_URL env of Some u \<Rightarrow> u | None \<Rightarrow> []);
          body = \<lparr>req_crop = (if crop env = [] then ''general'' else crop env),
                  req_symptom = symptomText, req_image_id = imageId,
                  req_user_id = userId env\<rparr>
      in [CSetLoading True, CFetch (apiUrl @ ''/api/chem-reco'') body] @
         (case fetch_chem env body of
            Ok data \<Rightarrow> [CSetRecommendation (Some data)]
          | OkNull \<Rightarrow> [CSetRecommendation None]
          | OkFalsy v \<Rightarrow> [CSetRecommendation None]
          | _ \<Rightarrow>
              [CConsoleError ''Recommendation error:'',
               CSetRecommendation (Some
                 \<lparr>recommendation_text = ''Suspected foliar fungal infection. Follow IPM: remove severely affected leaves, use neem-based biopesticide or consult KVK for certified fungicide. Do not apply chemicals without expert verification.'',
                  chem_confidence = 0.45,
                  chem_sources =
                    [\<lparr>title = ''IPM Guidelines for Crop Diseases'',
                      url = ''https://farmer.gov.in/ipm'',
                      snippet = ''Integrated Pest Management emphasizes biological and cultural controls before chemical intervention.''\<rparr>],
                  next_steps = [''Remove affected plant parts'', ''Use neem oil spray'',
                                ''Consult local KVK expert''],
                  safety_notice = ''IMPORTANT: This is general guidance only. Always consult local agricultural experts before applying any treatments.'',
                  meta = \<lparr>meta_crop = (if crop env = [] then ''general'' else crop env),
                          symptom_category = ''leaf_spots'',
                          meta_image_id = imageId\<rparr>\<rparr>)]) @
         [CSetLoading False])"

text \<open>
  \<open>handleImageUpload\<close> of the recommender. The progress callbacks of the upload, which
  only move the progress bar, are left out.
\<close>

definition Chem_handleImageUpload :: "ChemEnv \<Rightarrow> File \<Rightarrow> ChemEffect list" where
  "Chem_handleImageUpload env file =
     (if \<not> startsWith (file_type file) ''image/''
      then [CToast ''Invalid file'' ''Please upload an image file'' ''destructive'']
      else if file_size file > 5 * 1024 * 1024
      then [CToast ''File too large'' ''Please upload an image smaller than 5MB'' ''destructive'']
      else
        (let fileName = show_nat (chem_now env) @ ''-'' @ file_name file;
             filePath = (case userId env of
                           Some u \<Rightarrow>
                             if u \<noteq> [] then u @ ''/'' @ fileName
                             else ''anonymous/'' @ fileName
                         | None \<Rightarrow> ''anonymous/'' @ fileName)
         in [CSetLoading True, CSetUploadProgress 0,
             CStorageUpload ''farm-images'' filePath file] @
            (case chem_upload env ''farm-images'' filePath file of
               UploadError \<Rightarrow>
                 [CConsoleError ''Upload error:'',
                  CToast ''Upload failed'' ''Failed to upload image. Please try again.''
                    ''destructive'']
             | Uploaded path \<Rightarrow>
                 (let publicUrl = chem_getPublicUrl env ''farm-images'' path
                  in [CSetImageUrl (Some publicUrl)] @
                     getRecommendation env ''Image analysis for crop disease detection''
                       (Some publicUrl))) @
            [CSetLoading False, CSetUploadProgress 0]))"




section \<open>Vocabulary of the properties\<close>

text \<open>An effect that reaches the network: a storage upload or a request.\<close>

fun is_network :: "Effect \<Rightarrow> bool" where
  "is_network (StorageUpload b p f) = True"
| "is_network (Fetch u body) = True"
| "is_network _ = False"

fun is_Toast :: "Effect \<Rightarrow> bool" where
  "is_Toast (Toast a b c) = True"
| "is_Toast _ = False"

fun is_OnQuery :: "Effect \<Rightarrow> bool" where
  "is_OnQuery (OnQuery q f opts) = True"
| "is_OnQuery _ = False"

fun Chem_is_network :: "ChemEffect \<Rightarrow> bool" where
  "Chem_is_network (CStorageUpload b p f) = True"
| "Chem_is_network (CFetch u body) = True"
| "Chem_is_network _ = False"

text \<open>
  The databases this code produces: none yet, or version 1 with the store \<open>queries\<close> as
  \<^const>\<open>upgrade\<close> creates it, every stored key below the generator's next key.
\<close>

definition queries_store_ok :: "ObjectStore \<Rightarrow> bool" where
  "queries_store_ok st =
     (keyPath st = ''id'' \<and> autoIncrement st
      \<and> indexes st = [(''timestamp'', ''timestamp'')]
      \<and> list_all (\<lambda>(k, e). k < keyGenerator st) (records st))"

definition idb_inv :: "IDB \<Rightarrow> bool" where
  "idb_inv db =
     (if idb_version db = 0 then objectStores db = []
      else idb_version db = 1 \<and>
           (case map_of (objectStores db) ''queries'' of
              None \<Rightarrow> False
            | Some st \<Rightarrow> queries_store_ok st))"

text \<open>The log: the records of the store \<open>queries\<close>, and the key its next record gets.\<close>

definition logged :: "IDB \<Rightarrow> (nat \<times> LogEntry) list" where
  "logged db =
     (case map_of (objectStores db) ''queries'' of None \<Rightarrow> [] | Some st \<Rightarrow> records st)"

definition next_key :: "IDB \<Rightarrow> nat" where
  "next_key db =
     (case map_of (objectStores db) ''queries'' of None \<Rightarrow> 1 | Some st \<Rightarrow> keyGenerator st)"

text \<open>The body a response yields, if one is parsed.\<close>

fun body_of :: "QueryResult FetchOutcome \<Rightarrow> Body option" where
  "body_of (Ok r) = Some (JsonResult r)"
| "body_of OkNull = Some JsonNull"
| "body_of (OkFalsy v) = Some (JsonFalsy v)"
| "body_of _ = None"



text \<open>The request \<open>handleRealQuery\<close> sends for a text and an image handle.\<close>

definition request_of :: "Env \<Rightarrow> string \<Rightarrow> string option \<Rightarrow> QueryRequest" where
  "request_of env queryText imageId =
     \<lparr>user_id = ''anonymous'', text_field = queryText,
      lang_field = language env, image_id = imageId\<rparr>"

subsection \<open>Concrete inputs\<close>

definition st0 :: IndexState where
  "st0 = \<lparr>result = None, isLoading = False, showHelpCard = False, activeTab = TabQuery\<rparr>"

definition qp0 :: QueryPageState where
  "qp0 = \<lparr>qp_result = None, qp_isLoading = False\<rparr>"

definition db0 :: IDB where
  "db0 = \<lparr>idb_version = 0, objectStores = []\<rparr>"

text \<open>A world whose endpoint answers every request with \<open>out\<close>; storage works.\<close>

definition env_with :: "QueryResult FetchOutcome \<Rightarrow> Env" where
  "env_with out =
     \<lparr>t = t_en, language = ''en'', VITE_API_URL = None, now = 1755432000000,
      nowISO = ''2025-08-17T12:00:00.000Z'',
      fetch_query = (\<lambda>body. out),
      upload = (\<lambda>bucket path file. Uploaded path),
      getPublicUrl = (\<lambda>bucket path. ''https://storage.example/'' @ bucket @ ''/'' @ path),
      idb_open_ok = True, idb_add_ok = True\<rparr>"


definition r_high :: QueryResult where
  "r_high = \<lparr>answer = ''Sow after the first rain.'', confidence = 0.9,
             actions = [''Prepare seed bed''], sources = []\<rparr>"

text \<open>
  The answer "I don't know - please consult a local expert." written with the em dash
  U+2014 (bytes E2 80 94), and an answer that is the literal of line 159.
\<close>

definition em_dash_answer :: string where
  "em_dash_answer = ''I don't know '' @ [CHR 0xE2, CHR 0x80, CHR 0x94] @
     '' please consult a local expert.''"

definition r_dont_know :: QueryResult where
  "r_dont_know = \<lparr>answer = em_dash_answer, confidence = 0.2, actions = [], sources = []\<rparr>"

definition r_literal :: QueryResult where
  "r_literal = \<lparr>answer = sentinel, confidence = 0.95, actions = [], sources = []\<rparr>"

definition leaf_png :: File where
  "leaf_png = \<lparr>file_name = ''leaf.png'', file_type = ''image/png'', file_size = 204800\<rparr>"

definition big_jpg :: File where
  "big_jpg = \<lparr>file_name = ''field.jpg'', file_type = ''image/jpeg'',
              file_size = 6 * 1024 * 1024\<rparr>"

definition notes_pdf :: File where
  "notes_pdf = \<lparr>file_name = ''notes.pdf'', file_type = ''application/pdf'',
                file_size = 1024\<rparr>"



definition chem_env :: "string option \<Rightarrow> ChemEnv" where
  "chem_env uid =
     \<lparr>crop = ''tomato'', userId = uid, chem_VITE_API_URL = None, chem_now = 1755432000000,
      chem_upload = (\<lambda>bucket path file. Uploaded path),
      chem_getPublicUrl = (\<lambda>bucket path. ''https://storage.example/'' @ bucket @ ''/'' @ path),
      fetch_chem = (\<lambda>body. NetworkError)\<rparr>"


section \<open>Facts about the model\<close>

lemma str_includes_sublist: "str_includes s k = sublist k s"
  by (induction s) (simp_all add: sublist_Cons_right)

lemma Index_fallback_state:
  "Option.bind options opt_result = None \<Longrightarrow>
   Index_run (Index_handleQuery q f options) st =
     st\<lparr>result := selectedResult q f, isLoading := False\<rparr>"
  by (simp add: Index_run_def Index_handleQuery_def)

lemma Index_remote_state:
  "Option.bind options opt_result = Some r \<Longrightarrow>
   Index_run (Index_handleQuery q f options) st =
     st\<lparr>result := Some r,
        showHelpCard := (case Option.bind options opt_showHelpCard of Some b \<Rightarrow> b | None \<Rightarrow> False),
        isLoading := False\<rparr>"
  by (simp add: Index_run_def Index_handleQuery_def)

lemma IndexLegacy_state:
  "Index_run (IndexLegacy_handleQuery q f options) st =
     st\<lparr>result := selectedResult q f, isLoading := False\<rparr>"
  by (simp add: Index_run_def IndexLegacy_handleQuery_def)

lemma handleRealQuery_failure:
  assumes "fetch_query env (request_of env q imageId) \<in> {NetworkError, NotOk, BadJson}"
  shows "handleRealQuery env q imageId db =
    ([Fetch ((case VITE_API_URL env of Some u \<Rightarrow> u | None \<Rightarrow> []) @ ''/api/query'')
         (request_of env q imageId),
      ConsoleError ''Query error:'',
      OnQuery q (if truthy_str imageId then Some (new_File ''image'') else None) None], db)"
  using assms by (auto simp: handleRealQuery_def request_of_def Let_def)

lemma handleRealQuery_success:
  assumes "fetch_query env (request_of env q imageId) = Ok r"
  shows "handleRealQuery env q imageId db =
    ([Fetch ((case VITE_API_URL env of Some u \<Rightarrow> u | None \<Rightarrow> []) @ ''/api/query'')
         (request_of env q imageId)] @
      fst (logQueryToIndexedDB env q (JsonResult r) db) @
      [OnQuery q None
         (Some \<lparr>opt_showHelpCard = (if answer r = sentinel then Some True else None),
                opt_result = Some r\<rparr>)],
     snd (logQueryToIndexedDB env q (JsonResult r) db))"
  using assms by (auto simp: handleRealQuery_def request_of_def Let_def split: prod.splits)

lemma handleRealQuery_null:
  assumes "fetch_query env (request_of env q imageId) = OkNull"
  shows "handleRealQuery env q imageId db =
    ([Fetch ((case VITE_API_URL env of Some u \<Rightarrow> u | None \<Rightarrow> []) @ ''/api/query'')
         (request_of env q imageId)] @
      fst (logQueryToIndexedDB env q JsonNull db) @
      [ConsoleError ''Query error:'',
       OnQuery q (if truthy_str imageId then Some (new_File ''image'') else None) None],
     snd (logQueryToIndexedDB env q JsonNull db))"
  using assms by (auto simp: handleRealQuery_def request_of_def Let_def split: prod.splits)

lemma handleRealQuery_falsy:
  assumes "fetch_query env (request_of env q imageId) = OkFalsy v"
  shows "handleRealQuery env q imageId db =
    ([Fetch ((case VITE_API_URL env of Some u \<Rightarrow> u | None \<Rightarrow> []) @ ''/api/query'')
         (request_of env q imageId)] @
      fst (logQueryToIndexedDB env q (JsonFalsy v) db) @
      [OnQuery q None (Some \<lparr>opt_showHelpCard = None, opt_result = None\<rparr>)],
     snd (logQueryToIndexedDB env q (JsonFalsy v) db))"
  using assms by (auto simp: handleRealQuery_def request_of_def Let_def split: prod.splits)

lemma logQuery_effects:
  "fst (logQueryToIndexedDB env q r db) = [] \<or>
   fst (logQueryToIndexedDB env q r db) = [ConsoleError ''IndexedDB logging error:'']"
  by (simp add: logQueryToIndexedDB_def split: sum.splits)

lemma Index_deliver_append:
  "Index_deliver (xs @ ys) st = Index_deliver ys (Index_deliver xs st)"
  by (simp add: Index_deliver_def)

lemma Index_deliver_logQuery:
  "Index_deliver (fst (logQueryToIndexedDB env q r db)) st = st"
  using logQuery_effects[of env q r db] by (auto simp: Index_deliver_def)

lemma IndexLegacy_deliver_logQuery:
  "IndexLegacy_deliver (fst (logQueryToIndexedDB env q r db)) st = st"
  using logQuery_effects[of env q r db] by (auto simp: IndexLegacy_deliver_def)

lemma QueryPage_deliver_logQuery:
  "QueryPage_deliver (fst (logQueryToIndexedDB env q r db)) st = st"
  using logQuery_effects[of env q r db] by (auto simp: QueryPage_deliver_def)

lemma Index_deliver_success:
  assumes "fetch_query env (request_of env q imageId) = Ok r"
  shows "Index_deliver (fst (handleRealQuery env q imageId db)) st =
     st\<lparr>result := Some r, showHelpCard := (answer r = sentinel), isLoading := False\<rparr>"
proof -
  have "Index_deliver (fst (handleRealQuery env q imageId db)) st =
      Index_run (Index_handleQuery q None
         (Some \<lparr>opt_showHelpCard = (if answer r = sentinel then Some True else None),
                opt_result = Some r\<rparr>)) st"
    using Index_deliver_logQuery[of env q "JsonResult r" db]
    by (simp add: handleRealQuery_success[OF assms] Index_deliver_def)
  then show ?thesis by (simp add: Index_remote_state)
qed

lemma Index_deliver_failure:
  assumes "fetch_query env (request_of env q imageId) \<in> {NetworkError, NotOk, BadJson}"
  shows "Index_deliver (fst (handleRealQuery env q imageId db)) st =
     st\<lparr>result := selectedResult q (if truthy_str imageId then Some (new_File ''image'') else None),
        isLoading := False\<rparr>"
  by (simp add: handleRealQuery_failure[OF assms] Index_deliver_def Index_fallback_state)

lemma IndexLegacy_deliver_failure:
  assumes "fetch_query env (request_of env q imageId) \<in> {NetworkError, NotOk, BadJson}"
  shows "IndexLegacy_deliver (fst (handleRealQuery env q imageId db)) st =
     st\<lparr>result := selectedResult q (if truthy_str imageId then Some (new_File ''image'') else None),
        isLoading := False\<rparr>"
  by (simp add: handleRealQuery_failure[OF assms] IndexLegacy_deliver_def IndexLegacy_state)

lemma mockResults_pest:
  "mockResults ''pest'' = Some
      \<lparr>answer = ''Likely aphid infestation detected. Apply neem oil spray in evening for 3 days.'',
       confidence = 0.65,
       actions = [''Apply neem oil'', ''Remove affected leaves'', ''Consult KVK expert''],
       sources =
        [\<lparr>title = ''Pest Management Guide'',
          url = ''https://agricoop.nic.in/pest'',
          snippet = ''Aphids are common in post-winter crops. Early detection and organic treatment prevent yield loss.''\<rparr>,
         \<lparr>title = ''PMFBY Crop Insurance'',
          url = ''https://pmfby.gov.in'',
          snippet = ''Pest damage covered under crop insurance. Report to local agriculture officer within 72 hours.''\<rparr>]\<rparr>"
  by (simp add: mockResults_def)

lemma mockResults_confidence:
  "map_option confidence (mockResults ''pest'') = Some 0.65"
  "map_option confidence (mockResults ''fertilizer'') = Some 0.78"
  "map_option confidence (mockResults ''irrigation'') = Some 0.85"
  by (simp_all add: mockResults_def)

lemma idb_inv_db0: "idb_inv db0"
  by (simp add: idb_inv_def db0_def)

lemma openDB_ok:
  assumes "idb_inv db" "idb_open_ok env"
  shows "\<exists>db1. openDB env db = Inr db1 \<and> idb_inv db1 \<and> idb_version db1 = 1
      \<and> logged db1 = logged db \<and> next_key db1 = next_key db"
  using assms
  by (auto simp: openDB_def idb_inv_def upgrade_def logged_def next_key_def
        queries_store_ok_def split: if_splits option.splits)

lemma db_add_ok:
  assumes "idb_inv db1" "idb_version db1 = 1" "idb_add_ok env"
  shows "\<exists>db2. db_add env ''queries'' v db1 = Inr db2 \<and> idb_inv db2
      \<and> logged db2 = logged db1 @ [(next_key db1, v)] \<and> next_key db2 = next_key db1 + 1"
proof -
  from assms(1,2) obtain st where st: "map_of (objectStores db1) ''queries'' = Some st"
    and ok: "queries_store_ok st"
    by (auto simp: idb_inv_def split: option.splits)
  define st' where "st' = st\<lparr>records := records st @ [(keyGenerator st, v)],
                            keyGenerator := keyGenerator st + 1\<rparr>"
  define db2 where "db2 = db1\<lparr>objectStores := AList.update ''queries'' st' (objectStores db1)\<rparr>"
  have add: "db_add env ''queries'' v db1 = Inr db2"
    using st ok assms(3) by (simp add: db_add_def queries_store_ok_def db2_def st'_def)
  have look: "map_of (objectStores db2) ''queries'' = Some st'"
    by (simp add: db2_def update_conv')
  have ok': "queries_store_ok st'"
    using ok by (auto simp: queries_store_ok_def st'_def list_all_iff)
  have inv: "idb_inv db2"
    using assms(2) look ok' by (simp add: idb_inv_def db2_def)
  have lg: "logged db2 = logged db1 @ [(next_key db1, v)]"
    using st look by (simp add: logged_def next_key_def st'_def)
  have nk: "next_key db2 = next_key db1 + 1"
    using st look by (simp add: next_key_def st'_def)
  from add inv lg nk show ?thesis by blast
qed

lemma logQuery_ok:
  assumes "idb_inv db" "idb_open_ok env" "idb_add_ok env"
  shows "fst (logQueryToIndexedDB env q r db) = [] \<and>
     idb_inv (snd (logQueryToIndexedDB env q r db)) \<and>
     logged (snd (logQueryToIndexedDB env q r db)) =
       logged db @ [(next_key db,
                    \<lparr>query = q, response = r, timestamp = nowISO env, lang = language env\<rparr>)]"
proof -
  obtain db1 where o: "openDB env db = Inr db1" "idb_inv db1" "idb_version db1 = 1"
     "logged db1 = logged db" "next_key db1 = next_key db"
    using openDB_ok[OF assms(1,2)] by blast
  obtain db2 where a:
     "db_add env ''queries''
        \<lparr>query = q, response = r, timestamp = nowISO env, lang = language env\<rparr> db1 = Inr db2"
     "idb_inv db2"
     "logged db2 = logged db1 @ [(next_key db1,
        \<lparr>query = q, response = r, timestamp = nowISO env, lang = language env\<rparr>)]"
    using db_add_ok[OF o(2,3) assms(3)] by blast
  show ?thesis by (simp add: logQueryToIndexedDB_def o a)
qed

lemma logQuery_failed_open:
  "\<not> idb_open_ok env \<Longrightarrow>
   logQueryToIndexedDB env q r db = ([ConsoleError ''IndexedDB logging error:''], db)"
  by (simp add: logQueryToIndexedDB_def openDB_def)

lemma logQuery_failed_add:
  assumes "idb_inv db" "idb_open_ok env" "\<not> idb_add_ok env"
  shows "fst (logQueryToIndexedDB env q r db) = [ConsoleError ''IndexedDB logging error:'']
     \<and> logged (snd (logQueryToIndexedDB env q r db)) = logged db"
proof -
  obtain db1 where o: "openDB env db = Inr db1" "idb_inv db1" "idb_version db1 = 1"
     "logged db1 = logged db"
    using openDB_ok[OF assms(1,2)] by blast
  from o(2,3) obtain st where st: "map_of (objectStores db1) ''queries'' = Some st"
    and ok: "queries_store_ok st"
    by (auto simp: idb_inv_def split: option.splits)
  have "db_add env ''queries'' v db1 = Inl QuotaExceededError" for v
    using st ok assms(3) by (simp add: db_add_def queries_store_ok_def)
  then show ?thesis by (simp add: logQueryToIndexedDB_def o)
qed

lemma next_key_fresh: "idb_inv db \<Longrightarrow> next_key db \<notin> fst ` set (logged db)"
  by (auto simp: idb_inv_def logged_def next_key_def queries_store_ok_def list_all_iff
        split: if_splits option.splits)

lemma idb_inv_schema:
  assumes "idb_inv db" "logged db \<noteq> []"
  shows "\<exists>st. map_of (objectStores db) ''queries'' = Some st \<and> records st = logged db
     \<and> keyPath st = ''id'' \<and> autoIncrement st
     \<and> (''timestamp'', ''timestamp'') \<in> set (indexes st)"
  using assms
  by (auto simp: idb_inv_def logged_def queries_store_ok_def split: if_splits option.splits)

lemma HelpCard_rendered: "HelpCard \<in> set (Index_render st) \<longleftrightarrow> showHelpCard st"
  by (simp add: Index_render_def split: option.splits)



lemma sentinel_neq_em_dash: "em_dash_answer \<noteq> sentinel"
  by (simp add: em_dash_answer_def sentinel_def)

lemma OnQuery_of_success:
  assumes "fetch_query env (request_of env q imageId) = Ok r"
  shows "filter is_OnQuery (fst (handleRealQuery env q imageId db)) =
     [OnQuery q None
        (Some \<lparr>opt_showHelpCard = (if answer r = sentinel then Some True else None),
               opt_result = Some r\<rparr>)]"
proof -
  have "filter is_OnQuery (fst (logQueryToIndexedDB env q (JsonResult r) db)) = []"
    using logQuery_effects[of env q "JsonResult r" db] by auto
  then show ?thesis by (simp add: handleRealQuery_success[OF assms])
qed

lemma t_en_confidence:
  "t_en ''confidence.high'' = ''High''" "t_en ''confidence.medium'' = ''Medium''"
  "t_en ''confidence.low'' = ''Low''"
  by (simp_all add: t_en_def resources_en_def)

lemma show_nat_now: "show_nat 1755432000000 = ''1755432000000''"
  by (simp add: show_nat.simps digit_char_def)

lemma no_Toast_handleRealQuery: "\<not> list_ex is_Toast (fst (handleRealQuery env q imageId db))"
proof (cases "fetch_query env (request_of env q imageId)")
  case (Ok r)
  then show ?thesis
    using logQuery_effects[of env q "JsonResult r" db]
    by (auto simp: handleRealQuery_success[OF Ok])
next
  case OkNull
  then show ?thesis
    using logQuery_effects[of env q JsonNull db]
    by (auto simp: handleRealQuery_null[OF OkNull])
next
  case (OkFalsy v)
  then show ?thesis
    using logQuery_effects[of env q "JsonFalsy v" db]
    by (auto simp: handleRealQuery_falsy[OF OkFalsy])
qed (simp_all add: handleRealQuery_failure)

lemma uploadImageToSupabase_effects:
  "fst (uploadImageToSupabase env file db) =
     [SetUploadingImage True,
      StorageUpload ''farm-images'' (''uploads/'' @ show_nat (now env) @ ''-'' @ file_name file) file] @
     (case upload env ''farm-images'' (''uploads/'' @ show_nat (now env) @ ''-'' @ file_name file) file of
        UploadError \<Rightarrow>
          [ConsoleError ''Image upload error:'',
           Toast (t env ''image.error'') ''Failed to upload image. Please try again.'' ''destructive'']
      | Uploaded p \<Rightarrow>
          SetText (t env ''image.analyzing'') #
          fst (handleRealQuery env (t env ''image.analyzing'')
                 (Some (getPublicUrl env ''farm-images'' p)) db)) @
     [SetUploadingImage False]"
  by (simp add: uploadImageToSupabase_def Let_def split: UploadOutcome.splits prod.splits)

lemma handleRealQuery_first:
  "hd (fst (handleRealQuery env q imageId db)) =
     Fetch ((case VITE_API_URL env of Some u \<Rightarrow> u | None \<Rightarrow> []) @ ''/api/query'')
       (request_of env q imageId)"
proof (cases "fetch_query env (request_of env q imageId)")
  case (Ok r)
  then show ?thesis by (simp add: handleRealQuery_success[OF Ok])
next
  case OkNull
  then show ?thesis by (simp add: handleRealQuery_null[OF OkNull])
next
  case (OkFalsy v)
  then show ?thesis by (simp add: handleRealQuery_falsy[OF OkFalsy])
qed (simp_all add: handleRealQuery_failure)

lemma QueryPage_deliver_success:
  assumes "fetch_query env (request_of env q imageId) = Ok r"
  shows "QueryPage_deliver (fst (handleRealQuery env q imageId db)) st =
     st\<lparr>qp_result := Some r, qp_isLoading := False\<rparr>"
  using QueryPage_deliver_logQuery[of env q "JsonResult r" db]
  by (simp add: handleRealQuery_success[OF assms] QueryPage_deliver_def
        QueryPage_handleQuery_def QueryPage_run_def)

lemma getRecommendation_first:
  "take 2 (getRecommendation cenv s i) =
     [CSetLoading True,
      CFetch ((case chem_VITE_API_URL cenv of Some u \<Rightarrow> u | None \<Rightarrow> []) @ ''/api/chem-reco'')
        \<lparr>req_crop = (if crop cenv = [] then ''general'' else crop cenv),
         req_symptom = s, req_image_id = i, req_user_id = userId cenv\<rparr>]"
  by (simp add: getRecommendation_def Let_def)

lemma handleRealQuery_db:
  "snd (handleRealQuery env q imageId db) =
     (case body_of (fetch_query env (request_of env q imageId)) of
        Some b \<Rightarrow> snd (logQueryToIndexedDB env q b db)
      | None \<Rightarrow> db)"
proof (cases "fetch_query env (request_of env q imageId)")
  case (Ok r)
  then show ?thesis by (simp add: handleRealQuery_success[OF Ok])
next
  case OkNull
  then show ?thesis by (simp add: handleRealQuery_null[OF OkNull])
next
  case (OkFalsy v)
  then show ?thesis by (simp add: handleRealQuery_falsy[OF OkFalsy])
qed (simp_all add: handleRealQuery_failure)

lemma Index_deliver_null:
  assumes "fetch_query env (request_of env q imageId) = OkNull"
  shows "Index_deliver (fst (handleRealQuery env q imageId db)) st =
     st\<lparr>result := selectedResult q (if truthy_str imageId then Some (new_File ''image'') else None),
        isLoading := False\<rparr>"
  using Index_deliver_logQuery[of env q JsonNull db]
  by (simp add: handleRealQuery_null[OF assms] Index_deliver_def Index_fallback_state)

lemma Index_deliver_falsy:
  assumes "fetch_query env (request_of env q imageId) = OkFalsy v"
  shows "Index_deliver (fst (handleRealQuery env q imageId db)) st =
     st\<lparr>result := selectedResult q None, isLoading := False\<rparr>"
  using Index_deliver_logQuery[of env q "JsonFalsy v" db]
  by (simp add: handleRealQuery_falsy[OF assms] Index_deliver_def Index_fallback_state)

section \<open>The claims\<close>

text \<open>
  C1. When the remote call of a submission fails (the fetch rejects, the status is not ok
  or the body does not parse), the home page resolves it by the keyword analysis of the
  lowercased text: the "pest" result, confidence 0.65, if the text contains "pest",
  "insect" or "bug" or an image handle came with the submission; otherwise the
  "fertilizer" result, confidence 0.78, if it contains "fertilizer", "nutrient" or
  "nitrogen"; otherwise the "irrigation" result, confidence 0.85. Both versions of the
  home page's handler select the same result.
\<close>

theorem fallback_resolver_case_analysis:
  assumes "fetch_query env (request_of env q imageId) \<in> {NetworkError, NotOk, BadJson}"
  shows "result (Index_deliver (fst (handleRealQuery env q imageId db)) st) =
     (if str_includes (toLowerCase q) ''pest'' \<or> str_includes (toLowerCase q) ''insect''
         \<or> str_includes (toLowerCase q) ''bug'' \<or> truthy_str imageId
      then mockResults ''pest''
      else if str_includes (toLowerCase q) ''fertilizer''
         \<or> str_includes (toLowerCase q) ''nutrient''
         \<or> str_includes (toLowerCase q) ''nitrogen''
      then mockResults ''fertilizer''
      else mockResults ''irrigation'')
   \<and> result (IndexLegacy_deliver (fst (handleRealQuery env q imageId db)) st) =
       result (Index_deliver (fst (handleRealQuery env q imageId db)) st)
   \<and> map_option confidence (mockResults ''pest'') = Some 0.65
   \<and> map_option confidence (mockResults ''fertilizer'') = Some 0.78
   \<and> map_option confidence (mockResults ''irrigation'') = Some 0.85"
  by (simp add: Index_deliver_failure[OF assms] IndexLegacy_deliver_failure[OF assms]
        selectedResult_def Let_def mockResults_confidence)

theorem fallback_resolver_case_analysis_witness:
  "fetch_query (env_with NetworkError) (request_of (env_with NetworkError) ''Any BUGS on my crop?'' None)
      \<in> {NetworkError, NotOk, BadJson}
   \<and> result (Index_deliver (fst (handleRealQuery (env_with NetworkError) ''Any BUGS on my crop?'' None db0)) st0)
       = mockResults ''pest''
   \<and> result (Index_deliver (fst (handleRealQuery (env_with NotOk) ''Which Nitrogen dose?'' None db0)) st0)
       = mockResults ''fertilizer''
   \<and> result (Index_deliver (fst (handleRealQuery (env_with BadJson) ''When to irrigate?'' None db0)) st0)
       = mockResults ''irrigation''
   \<and> result (Index_deliver (fst (handleRealQuery (env_with NetworkError) ''When to irrigate?''
         (Some ''https://storage.example/farm-images/uploads/1-leaf.png'') db0)) st0)
       = mockResults ''pest''"
  using fallback_resolver_case_analysis[of "env_with NetworkError" "''Any BUGS on my crop?''" None db0 st0]
    fallback_resolver_case_analysis[of "env_with NotOk" "''Which Nitrogen dose?''" None db0 st0]
    fallback_resolver_case_analysis[of "env_with BadJson" "''When to irrigate?''" None db0 st0]
    fallback_resolver_case_analysis[of "env_with NetworkError" "''When to irrigate?''"
       "Some ''https://storage.example/farm-images/uploads/1-leaf.png''" db0 st0]
  by (simp add: env_with_def toLowerCase_def toLowerCase_char_def)

text \<open>
  C2, as stated, fails where the remote call fails: the submission resolves through the
  fallback of the page, and the log is what it was. Here the endpoint is unreachable, the
  home page shows the "irrigation" result, and the database is still the empty one.
\<close>

theorem fallback_not_logged_counterexample:
  "result (Index_deliver (fst (handleRealQuery (env_with NetworkError) ''When to irrigate?'' None db0)) st0)
     = mockResults ''irrigation''
   \<and> mockResults ''irrigation'' \<noteq> None
   \<and> logged (snd (handleRealQuery (env_with NetworkError) ''When to irrigate?'' None db0)) = logged db0
   \<and> snd (handleRealQuery (env_with NetworkError) ''When to irrigate?'' None db0) = db0"
  by (simp add: handleRealQuery_def env_with_def Let_def Index_deliver_def Index_fallback_state
        selectedResult_def toLowerCase_def toLowerCase_char_def mockResults_def)

text \<open>
  C2, amended. On a database this code has produced, a submission whose remote call
  yields a parsed body, and whose database opens and accepts the write, appends exactly
  one record to the store "queries": the query text, the body as it was parsed, the
  timestamp and the language tag, under the key the generator gives next, which no stored
  record has; the store has the key path "id", generates its keys and is indexed by
  "timestamp". That holds when the page then shows the body as the result, and also when
  the body is \<open>null\<close> or falsy and the page resolves through its fallback. A submission
  whose remote call fails before a body is parsed (the fetch rejects, the status is not
  ok, the body is not JSON) leaves the database as it was.
\<close>

theorem log_entry_per_parsed_body:
  assumes "idb_inv db"
  shows "(body_of (fetch_query env (request_of env q imageId)) = Some b
          \<and> idb_open_ok env \<and> idb_add_ok env
          \<longrightarrow> logged (snd (handleRealQuery env q imageId db)) =
                logged db @ [(next_key db,
                   \<lparr>query = q, response = b, timestamp = nowISO env, lang = language env\<rparr>)]
              \<and> next_key db \<notin> fst ` set (logged db)
              \<and> (\<exists>st. map_of (objectStores (snd (handleRealQuery env q imageId db))) ''queries''
                        = Some st
                    \<and> records st = logged (snd (handleRealQuery env q imageId db))
                    \<and> keyPath st = ''id'' \<and> autoIncrement st
                    \<and> (''timestamp'', ''timestamp'') \<in> set (indexes st)))
       \<and> (body_of (fetch_query env (request_of env q imageId)) = None
          \<longrightarrow> snd (handleRealQuery env q imageId db) = db)
       \<and> (fetch_query env (request_of env q imageId) = Ok r
          \<longrightarrow> result (Index_deliver (fst (handleRealQuery env q imageId db)) st) = Some r)
       \<and> (fetch_query env (request_of env q imageId) = OkNull
          \<longrightarrow> result (Index_deliver (fst (handleRealQuery env q imageId db)) st) =
                selectedResult q (if truthy_str imageId then Some (new_File ''image'') else None))
       \<and> (fetch_query env (request_of env q imageId) = OkFalsy v
          \<longrightarrow> result (Index_deliver (fst (handleRealQuery env q imageId db)) st) =
                selectedResult q None)"
proof (intro conjI impI)
  assume a: "body_of (fetch_query env (request_of env q imageId)) = Some b
          \<and> idb_open_ok env \<and> idb_add_ok env"
  then have s: "snd (handleRealQuery env q imageId db) = snd (logQueryToIndexedDB env q b db)"
    by (simp add: handleRealQuery_db)
  from a have l: "idb_inv (snd (logQueryToIndexedDB env q b db))"
    "logged (snd (logQueryToIndexedDB env q b db)) =
       logged db @ [(next_key db,
                    \<lparr>query = q, response = b, timestamp = nowISO env, lang = language env\<rparr>)]"
    using logQuery_ok[OF assms, of env q b] by simp_all
  show "logged (snd (handleRealQuery env q imageId db)) =
                logged db @ [(next_key db,
                   \<lparr>query = q, response = b, timestamp = nowISO env, lang = language env\<rparr>)]"
    using s l by simp
  show "next_key db \<notin> fst ` set (logged db)" by (rule next_key_fresh[OF assms])
  show "\<exists>st. map_of (objectStores (snd (handleRealQuery env q imageId db))) ''queries'' = Some st
                    \<and> records st = logged (snd (handleRealQuery env q imageId db))
                    \<and> keyPath st = ''id'' \<and> autoIncrement st
                    \<and> (''timestamp'', ''timestamp'') \<in> set (indexes st)"
    unfolding s using idb_inv_schema[OF l(1)] l(2) by simp
next
  assume "body_of (fetch_query env (request_of env q imageId)) = None"
  then show "snd (handleRealQuery env q imageId db) = db"
    by (simp add: handleRealQuery_db)
next
  assume "fetch_query env (request_of env q imageId) = Ok r"
  then show "result (Index_deliver (fst (handleRealQuery env q imageId db)) st) = Some r"
    by (simp add: Index_deliver_success)
next
  assume "fetch_query env (request_of env q imageId) = OkNull"
  then show "result (Index_deliver (fst (handleRealQuery env q imageId db)) st) =
                selectedResult q (if truthy_str imageId then Some (new_File ''image'') else None)"
    by (simp add: Index_deliver_null)
next
  assume "fetch_query env (request_of env q imageId) = OkFalsy v"
  then show "result (Index_deliver (fst (handleRealQuery env q imageId db)) st) =
                selectedResult q None"
    by (simp add: Index_deliver_falsy)
qed

theorem log_entry_per_parsed_body_witness:
  "idb_inv db0
   \<and> body_of (fetch_query (env_with (Ok r_high))
        (request_of (env_with (Ok r_high)) ''When to sow?'' None)) = Some (JsonResult r_high)
   \<and> idb_open_ok (env_with (Ok r_high)) \<and> idb_add_ok (env_with (Ok r_high))
   \<and> logged (snd (handleRealQuery (env_with (Ok r_high)) ''When to sow?'' None db0)) =
       [(1, \<lparr>query = ''When to sow?'', response = JsonResult r_high,
             timestamp = ''2025-08-17T12:00:00.000Z'', lang = ''en''\<rparr>)]
   \<and> fetch_query (env_with OkNull) (request_of (env_with OkNull) ''When to irrigate?'' None)
       = OkNull
   \<and> logged (snd (handleRealQuery (env_with OkNull) ''When to irrigate?'' None db0)) =
       [(1, \<lparr>query = ''When to irrigate?'', response = JsonNull,
             timestamp = ''2025-08-17T12:00:00.000Z'', lang = ''en''\<rparr>)]
   \<and> result (Index_deliver (fst (handleRealQuery (env_with OkNull) ''When to irrigate?'' None db0))
        st0) = mockResults ''irrigation''
   \<and> body_of (fetch_query (env_with NotOk) (request_of (env_with NotOk) ''When to sow?'' None))
       = None
   \<and> snd (handleRealQuery (env_with NotOk) ''When to sow?'' None db0) = db0"
proof -
  have e: "fetch_query (env_with out) body = out" "idb_open_ok (env_with out)"
    "idb_add_ok (env_with out)" "nowISO (env_with out) = ''2025-08-17T12:00:00.000Z''"
    "language (env_with out) = ''en''" for out body
    by (simp_all add: env_with_def)
  have k: "logged db0 = []" "next_key db0 = 1"
    by (simp_all add: logged_def next_key_def db0_def)
  have s: "selectedResult ''When to irrigate?'' None = mockResults ''irrigation''"
    by (simp add: selectedResult_def toLowerCase_def toLowerCase_char_def Let_def)
  have 1: "logged (snd (handleRealQuery (env_with (Ok r_high)) ''When to sow?'' None db0)) =
       [(1, \<lparr>query = ''When to sow?'', response = JsonResult r_high,
             timestamp = ''2025-08-17T12:00:00.000Z'', lang = ''en''\<rparr>)]"
    using log_entry_per_parsed_body[OF idb_inv_db0, of "env_with (Ok r_high)" "''When to sow?''"
        None "JsonResult r_high" r_high st0 JsonFalse]
    by (simp add: e k)
  have 2: "logged (snd (handleRealQuery (env_with OkNull) ''When to irrigate?'' None db0)) =
       [(1, \<lparr>query = ''When to irrigate?'', response = JsonNull,
             timestamp = ''2025-08-17T12:00:00.000Z'', lang = ''en''\<rparr>)]"
    and 3: "result (Index_deliver
        (fst (handleRealQuery (env_with OkNull) ''When to irrigate?'' None db0)) st0)
         = mockResults ''irrigation''"
    using log_entry_per_parsed_body[OF idb_inv_db0, of "env_with OkNull" "''When to irrigate?''"
        None JsonNull r_high st0 JsonFalse]
    by (simp_all add: e k s)
  have 4: "snd (handleRealQuery (env_with NotOk) ''When to sow?'' None db0) = db0"
    using log_entry_per_parsed_body[OF idb_inv_db0, of "env_with NotOk" "''When to sow?''"
        None JsonNull r_high st0 JsonFalse]
    by (simp add: e)
  from idb_inv_db0 1 2 3 4 show ?thesis by (simp add: e)
qed




text \<open>
  C4. The code compares the answer with the literal of line 159, whose dash is the
  three characters U+00E2 U+20AC U+201D and not the em dash U+2014. A successful response
  whose answer is the sentinel sentence written with the em dash is handed to the page
  without the tag and no help card is rendered; an answer equal to the literal is tagged.
\<close>

theorem em_dash_sentinel_not_tagged:
  "answer r_dont_know = em_dash_answer
   \<and> filter is_OnQuery (fst (handleRealQuery (env_with (Ok r_dont_know)) ''What is this weed?'' None db0))
       = [OnQuery ''What is this weed?'' None
            (Some \<lparr>opt_showHelpCard = None, opt_result = Some r_dont_know\<rparr>)]
   \<and> HelpCard \<notin> set (Index_render
        (Index_deliver (fst (handleRealQuery (env_with (Ok r_dont_know)) ''What is this weed?'' None db0)) st0))
   \<and> filter is_OnQuery (fst (handleRealQuery (env_with (Ok r_literal)) ''What is this weed?'' None db0))
       = [OnQuery ''What is this weed?'' None
            (Some \<lparr>opt_showHelpCard = Some True, opt_result = Some r_literal\<rparr>)]"
proof -
  have f: "fetch_query (env_with (Ok r))
             (request_of (env_with (Ok r)) ''What is this weed?'' None) = Ok r" for r
    by (simp add: env_with_def)
  have a: "answer r_dont_know = em_dash_answer" by (simp add: r_dont_know_def)
  have n: "answer r_dont_know \<noteq> sentinel"
    using sentinel_neq_em_dash by (simp add: a)
  have l: "answer r_literal = sentinel" by (simp add: r_literal_def)
  have 1: "filter is_OnQuery (fst (handleRealQuery (env_with (Ok r_dont_know)) ''What is this weed?'' None db0))
       = [OnQuery ''What is this weed?'' None
            (Some \<lparr>opt_showHelpCard = None, opt_result = Some r_dont_know\<rparr>)]"
    using n by (simp add: OnQuery_of_success[OF f])
  have 2: "HelpCard \<notin> set (Index_render
        (Index_deliver (fst (handleRealQuery (env_with (Ok r_dont_know)) ''What is this weed?'' None db0)) st0))"
    using n by (simp add: Index_deliver_success[OF f] HelpCard_rendered)
  have 3: "filter is_OnQuery (fst (handleRealQuery (env_with (Ok r_literal)) ''What is this weed?'' None db0))
       = [OnQuery ''What is this weed?'' None
            (Some \<lparr>opt_showHelpCard = Some True, opt_result = Some r_literal\<rparr>)]"
    using l by (simp add: OnQuery_of_success[OF f])
  from a 1 2 3 show ?thesis by blast
qed

text \<open>
  C5. For every confidence \<open>c\<close> (so for every one in [0,1]) the displayed band is
  "high" exactly when \<open>c \<ge> 0.7\<close>, "medium" exactly when \<open>0.4 \<le> c < 0.7\<close> and "low"
  exactly when \<open>c < 0.4\<close>, under any translation that gives the three bands different
  words; the badge colour and the icon follow the same three bands, each band with its
  own class and its own icon.
\<close>

theorem confidence_banding:
  assumes "distinct [tr ''confidence.high'', tr ''confidence.medium'', tr ''confidence.low'']"
  shows "(getConfidenceText tr c = tr ''confidence.high'' \<longleftrightarrow> c \<ge> 0.7)
   \<and> (getConfidenceText tr c = tr ''confidence.medium'' \<longleftrightarrow> 0.4 \<le> c \<and> c < 0.7)
   \<and> (getConfidenceText tr c = tr ''confidence.low'' \<longleftrightarrow> c < 0.4)
   \<and> (getConfidenceColor c = ''bg-gradient-confidence-high'' \<longleftrightarrow> c \<ge> 0.7)
   \<and> (getConfidenceColor c = ''bg-gradient-confidence-medium'' \<longleftrightarrow> 0.4 \<le> c \<and> c < 0.7)
   \<and> (getConfidenceColor c = ''bg-gradient-confidence-low'' \<longleftrightarrow> c < 0.4)
   \<and> (getConfidenceIcon c = (''CheckCircle'', ''h-5 w-5 text-success'') \<longleftrightarrow> c \<ge> 0.7)
   \<and> (getConfidenceIcon c = (''AlertTriangle'', ''h-5 w-5 text-warning'') \<longleftrightarrow> 0.4 \<le> c \<and> c < 0.7)
   \<and> (getConfidenceIcon c = (''XCircle'', ''h-5 w-5 text-destructive'') \<longleftrightarrow> c < 0.4)"
proof -
  have lab: "(getConfidenceText tr c = tr ''confidence.high'' \<longleftrightarrow> c \<ge> 0.7)
   \<and> (getConfidenceText tr c = tr ''confidence.medium'' \<longleftrightarrow> 0.4 \<le> c \<and> c < 0.7)
   \<and> (getConfidenceText tr c = tr ''confidence.low'' \<longleftrightarrow> c < 0.4)"
    using assms by (auto simp: getConfidenceText_def)
  have col: "(getConfidenceColor c = ''bg-gradient-confidence-high'' \<longleftrightarrow> c \<ge> 0.7)
   \<and> (getConfidenceColor c = ''bg-gradient-confidence-medium'' \<longleftrightarrow> 0.4 \<le> c \<and> c < 0.7)
   \<and> (getConfidenceColor c = ''bg-gradient-confidence-low'' \<longleftrightarrow> c < 0.4)"
    by (auto simp: getConfidenceColor_def)
  have ico: "(getConfidenceIcon c = (''CheckCircle'', ''h-5 w-5 text-success'') \<longleftrightarrow> c \<ge> 0.7)
   \<and> (getConfidenceIcon c = (''AlertTriangle'', ''h-5 w-5 text-warning'') \<longleftrightarrow> 0.4 \<le> c \<and> c < 0.7)
   \<and> (getConfidenceIcon c = (''XCircle'', ''h-5 w-5 text-destructive'') \<longleftrightarrow> c < 0.4)"
    by (auto simp: getConfidenceIcon_def)
  from lab col ico show ?thesis by blast
qed

theorem confidence_banding_witness:
  "distinct [t_en ''confidence.high'', t_en ''confidence.medium'', t_en ''confidence.low'']
   \<and> getConfidenceText t_en 0.85 = ''High''
   \<and> getConfidenceText t_en 0.7 = ''High''
   \<and> getConfidenceText t_en 0.5 = ''Medium''
   \<and> getConfidenceText t_en 0.4 = ''Medium''
   \<and> getConfidenceText t_en 0.3 = ''Low''"
proof -
  have d: "distinct [t_en ''confidence.high'', t_en ''confidence.medium'', t_en ''confidence.low'']"
    by (simp add: t_en_confidence)
  show ?thesis
    using d confidence_banding[OF d, of "0.85"] confidence_banding[OF d, of "0.7"]
      confidence_banding[OF d, of "0.5"] confidence_banding[OF d, of "0.4"]
      confidence_banding[OF d, of "0.3"]
    by (simp add: t_en_confidence)
qed

text \<open>
  C6. In the input component and in the treatment recommender, a selected file whose
  MIME type does not start with "image/" is rejected with the invalid-type message, and
  an image larger than 5 * 1024 * 1024 bytes with the too-large message; a rejection makes
  no storage upload and no request; the two messages differ. An image of at most 5 MB
  goes on to the storage upload.
\<close>

theorem image_validation_before_upload:
  "(\<not> startsWith (file_type file) ''image/'' \<longrightarrow>
      handleImageUpload env (Some file) db =
        ([Toast (t env ''image.error'') (t env ''image.invalidType'') ''destructive''], db)
      \<and> Chem_handleImageUpload cenv file =
        [CToast ''Invalid file'' ''Please upload an image file'' ''destructive''])
   \<and> (startsWith (file_type file) ''image/'' \<and> file_size file > 5 * 1024 * 1024 \<longrightarrow>
      handleImageUpload env (Some file) db =
        ([Toast (t env ''image.error'') (t env ''image.tooLarge'') ''destructive''], db)
      \<and> Chem_handleImageUpload cenv file =
        [CToast ''File too large'' ''Please upload an image smaller than 5MB'' ''destructive''])
   \<and> (\<not> startsWith (file_type file) ''image/'' \<or> file_size file > 5 * 1024 * 1024 \<longrightarrow>
      \<not> list_ex is_network (fst (handleImageUpload env (Some file) db))
      \<and> \<not> list_ex Chem_is_network (Chem_handleImageUpload cenv file))
   \<and> (startsWith (file_type file) ''image/'' \<and> file_size file \<le> 5 * 1024 * 1024 \<longrightarrow>
      handleImageUpload env (Some file) db = uploadImageToSupabase env file db
      \<and> take 2 (fst (handleImageUpload env (Some file) db)) =
          [SetUploadingImage True,
           StorageUpload ''farm-images''
             (''uploads/'' @ show_nat (now env) @ ''-'' @ file_name file) file]
      \<and> (\<exists>p. take 3 (Chem_handleImageUpload cenv file) =
          [CSetLoading True, CSetUploadProgress 0, CStorageUpload ''farm-images'' p file]))
   \<and> t_en ''image.invalidType'' \<noteq> t_en ''image.tooLarge''
   \<and> CToast ''Invalid file'' ''Please upload an image file'' ''destructive'' \<noteq>
      CToast ''File too large'' ''Please upload an image smaller than 5MB'' ''destructive''"
proof (intro conjI impI)
  assume a: "\<not> startsWith (file_type file) ''image/''"
  show "handleImageUpload env (Some file) db =
        ([Toast (t env ''image.error'') (t env ''image.invalidType'') ''destructive''], db)"
    using a by (simp add: handleImageUpload_def)
  show "Chem_handleImageUpload cenv file =
        [CToast ''Invalid file'' ''Please upload an image file'' ''destructive'']"
    using a by (simp add: Chem_handleImageUpload_def)
next
  assume a: "startsWith (file_type file) ''image/'' \<and> file_size file > 5 * 1024 * 1024"
  show "handleImageUpload env (Some file) db =
        ([Toast (t env ''image.error'') (t env ''image.tooLarge'') ''destructive''], db)"
    using a by (simp add: handleImageUpload_def)
  show "Chem_handleImageUpload cenv file =
        [CToast ''File too large'' ''Please upload an image smaller than 5MB'' ''destructive'']"
    using a by (simp add: Chem_handleImageUpload_def)
next
  assume a: "\<not> startsWith (file_type file) ''image/'' \<or> file_size file > 5 * 1024 * 1024"
  show "\<not> list_ex is_network (fst (handleImageUpload env (Some file) db))"
    using a by (auto simp: handleImageUpload_def)
  show "\<not> list_ex Chem_is_network (Chem_handleImageUpload cenv file)"
    using a by (auto simp: Chem_handleImageUpload_def)
next
  assume a: "startsWith (file_type file) ''image/'' \<and> file_size file \<le> 5 * 1024 * 1024"
  show e: "handleImageUpload env (Some file) db = uploadImageToSupabase env file db"
    using a by (simp add: handleImageUpload_def)
  show "take 2 (fst (handleImageUpload env (Some file) db)) =
          [SetUploadingImage True,
           StorageUpload ''farm-images''
             (''uploads/'' @ show_nat (now env) @ ''-'' @ file_name file) file]"
    by (simp add: e uploadImageToSupabase_effects)
  show "\<exists>p. take 3 (Chem_handleImageUpload cenv file) =
          [CSetLoading True, CSetUploadProgress 0, CStorageUpload ''farm-images'' p file]"
    using a by (simp add: Chem_handleImageUpload_def Let_def)
next
  show "t_en ''image.invalidType'' \<noteq> t_en ''image.tooLarge''"
    by (simp add: t_en_def resources_en_def)
  show "CToast ''Invalid file'' ''Please upload an image file'' ''destructive'' \<noteq>
      CToast ''File too large'' ''Please upload an image smaller than 5MB'' ''destructive''"
    by simp
qed

theorem image_validation_before_upload_witness:
  "\<not> startsWith (file_type notes_pdf) ''image/''
   \<and> fst (handleImageUpload (env_with NetworkError) (Some notes_pdf) db0) =
       [Toast ''Image upload error'' ''Please upload a valid image file'' ''destructive'']
   \<and> startsWith (file_type big_jpg) ''image/'' \<and> file_size big_jpg > 5 * 1024 * 1024
   \<and> fst (handleImageUpload (env_with NetworkError) (Some big_jpg) db0) =
       [Toast ''Image upload error'' ''Image file too large (max 5MB)'' ''destructive'']
   \<and> Chem_handleImageUpload (chem_env None) big_jpg =
       [CToast ''File too large'' ''Please upload an image smaller than 5MB'' ''destructive'']
   \<and> startsWith (file_type leaf_png) ''image/'' \<and> file_size leaf_png \<le> 5 * 1024 * 1024
   \<and> take 2 (fst (handleImageUpload (env_with NetworkError) (Some leaf_png) db0)) =
       [SetUploadingImage True,
        StorageUpload ''farm-images'' ''uploads/1755432000000-leaf.png'' leaf_png]"
proof -
  have h1: "\<not> startsWith (file_type notes_pdf) ''image/''"
    by (simp add: notes_pdf_def startsWith_def)
  have h2: "startsWith (file_type big_jpg) ''image/'' \<and> file_size big_jpg > 5 * 1024 * 1024"
    by (simp add: big_jpg_def startsWith_def)
  have h3: "startsWith (file_type leaf_png) ''image/'' \<and> file_size leaf_png \<le> 5 * 1024 * 1024"
    by (simp add: leaf_png_def startsWith_def)
  have tv: "t (env_with NetworkError) = t_en" "now (env_with NetworkError) = 1755432000000"
    by (simp_all add: env_with_def)
  have r1: "handleImageUpload (env_with NetworkError) (Some notes_pdf) db0 =
        ([Toast (t (env_with NetworkError) ''image.error'')
            (t (env_with NetworkError) ''image.invalidType'') ''destructive''], db0)"
    using image_validation_before_upload[of notes_pdf "env_with NetworkError" db0 "chem_env None"] h1
    by blast
  have r2: "handleImageUpload (env_with NetworkError) (Some big_jpg) db0 =
        ([Toast (t (env_with NetworkError) ''image.error'')
            (t (env_with NetworkError) ''image.tooLarge'') ''destructive''], db0)"
    and r3: "Chem_handleImageUpload (chem_env None) big_jpg =
        [CToast ''File too large'' ''Please upload an image smaller than 5MB'' ''destructive'']"
    using image_validation_before_upload[of big_jpg "env_with NetworkError" db0 "chem_env None"] h2
    by blast+
  have r4: "take 2 (fst (handleImageUpload (env_with NetworkError) (Some leaf_png) db0)) =
          [SetUploadingImage True,
           StorageUpload ''farm-images''
             (''uploads/'' @ show_nat (now (env_with NetworkError)) @ ''-'' @ file_name leaf_png)
             leaf_png]"
    using image_validation_before_upload[of leaf_png "env_with NetworkError" db0 "chem_env None"] h3
    by blast
  have n: "file_name leaf_png = ''leaf.png''" by (simp add: leaf_png_def)
  show ?thesis
    using h1 h2 h3 r3
    by (simp add: r1 r2 r4 tv t_en_def resources_en_def show_nat_now n)
qed

text \<open>
  C7. A submission whose remote call succeeds hands the remote result to the page
  whatever the log write does. When the database does not open, or the write is refused,
  the effects are the request, one console message and the same \<open>onQuery\<close> call that
  the run with a working database makes: no toast, the same page state, the remote result
  shown and not the fallback.
\<close>

theorem log_failure_swallowed:
  assumes "fetch_query env (request_of env q imageId) = Ok r"
  shows "(\<not> idb_open_ok env \<or> (idb_inv db \<and> \<not> idb_add_ok env) \<longrightarrow>
        fst (handleRealQuery env q imageId db) =
          [Fetch ((case VITE_API_URL env of Some u \<Rightarrow> u | None \<Rightarrow> []) @ ''/api/query'')
             (request_of env q imageId),
           ConsoleError ''IndexedDB logging error:'',
           OnQuery q None
             (Some \<lparr>opt_showHelpCard = (if answer r = sentinel then Some True else None),
                    opt_result = Some r\<rparr>)])
   \<and> (idb_inv db' \<longrightarrow>
        fst (handleRealQuery (env\<lparr>idb_open_ok := True, idb_add_ok := True\<rparr>) q imageId db') =
          [Fetch ((case VITE_API_URL env of Some u \<Rightarrow> u | None \<Rightarrow> []) @ ''/api/query'')
             (request_of env q imageId),
           OnQuery q None
             (Some \<lparr>opt_showHelpCard = (if answer r = sentinel then Some True else None),
                    opt_result = Some r\<rparr>)])
   \<and> filter is_OnQuery (fst (handleRealQuery env q imageId db)) =
       filter is_OnQuery
         (fst (handleRealQuery (env\<lparr>idb_open_ok := True, idb_add_ok := True\<rparr>) q imageId db'))
   \<and> \<not> list_ex is_Toast (fst (handleRealQuery env q imageId db))
   \<and> Index_deliver (fst (handleRealQuery env q imageId db)) st =
       Index_deliver
         (fst (handleRealQuery (env\<lparr>idb_open_ok := True, idb_add_ok := True\<rparr>) q imageId db')) st
   \<and> result (Index_deliver (fst (handleRealQuery env q imageId db)) st) = Some r
   \<and> qp_result (QueryPage_deliver (fst (handleRealQuery env q imageId db)) qst) = Some r"
proof -
  let ?ok = "env\<lparr>idb_open_ok := True, idb_add_ok := True\<rparr>"
  have f: "fetch_query ?ok (request_of ?ok q imageId) = Ok r"
    using assms by (simp add: request_of_def)
  have rq: "request_of ?ok q imageId = request_of env q imageId"
    by (simp add: request_of_def)
  have 1: "\<not> idb_open_ok env \<or> (idb_inv db \<and> \<not> idb_add_ok env) \<longrightarrow>
        fst (handleRealQuery env q imageId db) =
          [Fetch ((case VITE_API_URL env of Some u \<Rightarrow> u | None \<Rightarrow> []) @ ''/api/query'')
             (request_of env q imageId),
           ConsoleError ''IndexedDB logging error:'',
           OnQuery q None
             (Some \<lparr>opt_showHelpCard = (if answer r = sentinel then Some True else None),
                    opt_result = Some r\<rparr>)]"
  proof (intro impI)
    assume a: "\<not> idb_open_ok env \<or> (idb_inv db \<and> \<not> idb_add_ok env)"
    have "fst (logQueryToIndexedDB env q (JsonResult r) db) =
        [ConsoleError ''IndexedDB logging error:'']"
    proof (cases "idb_open_ok env")
      case False
      then show ?thesis by (simp add: logQuery_failed_open)
    next
      case True
      with a have "idb_inv db" "\<not> idb_add_ok env" by auto
      from logQuery_failed_add[OF this(1) True this(2)] show ?thesis by simp
    qed
    then show "fst (handleRealQuery env q imageId db) =
          [Fetch ((case VITE_API_URL env of Some u \<Rightarrow> u | None \<Rightarrow> []) @ ''/api/query'')
             (request_of env q imageId),
           ConsoleError ''IndexedDB logging error:'',
           OnQuery q None
             (Some \<lparr>opt_showHelpCard = (if answer r = sentinel then Some True else None),
                    opt_result = Some r\<rparr>)]"
      by (simp add: handleRealQuery_success[OF assms])
  qed
  have 2: "idb_inv db' \<longrightarrow>
        fst (handleRealQuery ?ok q imageId db') =
          [Fetch ((case VITE_API_URL env of Some u \<Rightarrow> u | None \<Rightarrow> []) @ ''/api/query'')
             (request_of env q imageId),
           OnQuery q None
             (Some \<lparr>opt_showHelpCard = (if answer r = sentinel then Some True else None),
                    opt_result = Some r\<rparr>)]"
  proof (intro impI)
    assume i: "idb_inv db'"
    have "fst (logQueryToIndexedDB ?ok q (JsonResult r) db') = []"
      using logQuery_ok[OF i, of ?ok q "JsonResult r"] by simp
    then show "fst (handleRealQuery ?ok q imageId db') =
          [Fetch ((case VITE_API_URL env of Some u \<Rightarrow> u | None \<Rightarrow> []) @ ''/api/query'')
             (request_of env q imageId),
           OnQuery q None
             (Some \<lparr>opt_showHelpCard = (if answer r = sentinel then Some True else None),
                    opt_result = Some r\<rparr>)]"
      by (simp add: handleRealQuery_success[OF f] rq)
  qed
  have 3: "filter is_OnQuery (fst (handleRealQuery env q imageId db)) =
       filter is_OnQuery (fst (handleRealQuery ?ok q imageId db'))"
    by (simp add: OnQuery_of_success[OF assms] OnQuery_of_success[OF f])
  have 4: "\<not> list_ex is_Toast (fst (handleRealQuery env q imageId db))"
    by (rule no_Toast_handleRealQuery)
  have 5: "Index_deliver (fst (handleRealQuery env q imageId db)) st =
       Index_deliver (fst (handleRealQuery ?ok q imageId db')) st"
    by (simp add: Index_deliver_success[OF assms] Index_deliver_success[OF f])
  have 6: "result (Index_deliver (fst (handleRealQuery env q imageId db)) st) = Some r"
    by (simp add: Index_deliver_success[OF assms])
  have 7: "qp_result (QueryPage_deliver (fst (handleRealQuery env q imageId db)) qst) = Some r"
    by (simp add: QueryPage_deliver_success[OF assms])
  from 1 2 3 4 5 6 7 show ?thesis by blast
qed

theorem log_failure_swallowed_witness:
  "fetch_query ((env_with (Ok r_high))\<lparr>idb_add_ok := False\<rparr>)
      (request_of ((env_with (Ok r_high))\<lparr>idb_add_ok := False\<rparr>) ''When to sow?'' None) = Ok r_high
   \<and> idb_inv db0 \<and> \<not> idb_add_ok ((env_with (Ok r_high))\<lparr>idb_add_ok := False\<rparr>)
   \<and> fst (handleRealQuery ((env_with (Ok r_high))\<lparr>idb_add_ok := False\<rparr>) ''When to sow?'' None db0) =
       [Fetch ''/api/query''
          \<lparr>user_id = ''anonymous'', text_field = ''When to sow?'', lang_field = ''en'',
           image_id = None\<rparr>,
        ConsoleError ''IndexedDB logging error:'',
        OnQuery ''When to sow?'' None
          (Some \<lparr>opt_showHelpCard = None, opt_result = Some r_high\<rparr>)]
   \<and> result (Index_deliver
        (fst (handleRealQuery ((env_with (Ok r_high))\<lparr>idb_add_ok := False\<rparr>) ''When to sow?'' None db0))
        st0) = Some r_high"
proof -
  let ?e = "(env_with (Ok r_high))\<lparr>idb_add_ok := False\<rparr>"
  have f: "fetch_query ?e (request_of ?e ''When to sow?'' None) = Ok r_high"
    by (simp add: env_with_def)
  have a: "\<not> idb_add_ok ?e" by simp
  have n: "answer r_high \<noteq> sentinel" by (simp add: r_high_def sentinel_def)
  have v: "VITE_API_URL ?e = None" "request_of ?e ''When to sow?'' None =
      \<lparr>user_id = ''anonymous'', text_field = ''When to sow?'', lang_field = ''en'', image_id = None\<rparr>"
    by (simp_all add: env_with_def request_of_def)
  note T = log_failure_swallowed[OF f, of db0 db0 st0 qp0]
  from T idb_inv_db0 a have
    "fst (handleRealQuery ?e ''When to sow?'' None db0) =
          [Fetch ((case VITE_API_URL ?e of Some u \<Rightarrow> u | None \<Rightarrow> []) @ ''/api/query'')
             (request_of ?e ''When to sow?'' None),
           ConsoleError ''IndexedDB logging error:'',
           OnQuery ''When to sow?'' None
             (Some \<lparr>opt_showHelpCard = (if answer r_high = sentinel then Some True else None),
                    opt_result = Some r_high\<rparr>)]"
    by blast
  then have 1: "fst (handleRealQuery ?e ''When to sow?'' None db0) =
       [Fetch ''/api/query''
          \<lparr>user_id = ''anonymous'', text_field = ''When to sow?'', lang_field = ''en'',
           image_id = None\<rparr>,
        ConsoleError ''IndexedDB logging error:'',
        OnQuery ''When to sow?'' None
          (Some \<lparr>opt_showHelpCard = None, opt_result = Some r_high\<rparr>)]"
    using n by (simp add: v)
  from T have 2: "result (Index_deliver (fst (handleRealQuery ?e ''When to sow?'' None db0)) st0)
      = Some r_high" by blast
  from f idb_inv_db0 a 1 2 show ?thesis by blast
qed


text \<open>
  C9. On the query page a submission without a remote result (no options, or options
  without a result) waits 600 ms and then sets one fixed result: the answer "Answer for: "
  followed by the text, confidence 0.7, three actions, one source, whatever the text
  contains and whether or not a file came with it. The handler gives the same actions
  whatever \<open>showHelpCard\<close> the options carry. So a submission of the input component whose
  remote call fails resolves to that result.
\<close>

theorem QueryPage_fixed_fallback:
  "(Option.bind options opt_result = None \<longrightarrow>
      QueryPage_handleQuery q f options =
        [QP_SetIsLoading True, QP_Sleep 600,
         QP_SetResult (Some
           \<lparr>answer = ''Answer for: '' @ q, confidence = 0.7,
            actions = [''Check soil moisture'', ''Review weather'', ''Plan irrigation''],
            sources = [\<lparr>title = ''IMD'', url = ''https://mausam.imd.gov.in'',
                        snippet = ''Official weather service''\<rparr>]\<rparr>),
         QP_SetIsLoading False]
      \<and> (\<exists>r. qp_result (QueryPage_run (QueryPage_handleQuery q f options) st) = Some r
            \<and> answer r = ''Answer for: '' @ q \<and> confidence r = 0.7
            \<and> length (actions r) = 3 \<and> length (sources r) = 1))
   \<and> QueryPage_handleQuery q f (Some (opts\<lparr>opt_showHelpCard := flag\<rparr>)) =
       QueryPage_handleQuery q f (Some opts)
   \<and> (fetch_query env (request_of env q imageId) \<in> {NetworkError, NotOk, BadJson} \<longrightarrow>
       qp_result (QueryPage_deliver (fst (handleRealQuery env q imageId db)) st) =
         Some \<lparr>answer = ''Answer for: '' @ q, confidence = 0.7,
            actions = [''Check soil moisture'', ''Review weather'', ''Plan irrigation''],
            sources = [\<lparr>title = ''IMD'', url = ''https://mausam.imd.gov.in'',
                        snippet = ''Official weather service''\<rparr>]\<rparr>)"
proof (intro conjI impI)
  assume a: "Option.bind options opt_result = None"
  show "QueryPage_handleQuery q f options =
        [QP_SetIsLoading True, QP_Sleep 600,
         QP_SetResult (Some
           \<lparr>answer = ''Answer for: '' @ q, confidence = 0.7,
            actions = [''Check soil moisture'', ''Review weather'', ''Plan irrigation''],
            sources = [\<lparr>title = ''IMD'', url = ''https://mausam.imd.gov.in'',
                        snippet = ''Official weather service''\<rparr>]\<rparr>),
         QP_SetIsLoading False]"
    using a by (simp add: QueryPage_handleQuery_def)
  show "\<exists>r. qp_result (QueryPage_run (QueryPage_handleQuery q f options) st) = Some r
            \<and> answer r = ''Answer for: '' @ q \<and> confidence r = 0.7
            \<and> length (actions r) = 3 \<and> length (sources r) = 1"
    using a by (simp add: QueryPage_handleQuery_def QueryPage_run_def)
next
  show "QueryPage_handleQuery q f (Some (opts\<lparr>opt_showHelpCard := flag\<rparr>)) =
       QueryPage_handleQuery q f (Some opts)"
    by (simp add: QueryPage_handleQuery_def)
next
  assume "fetch_query env (request_of env q imageId) \<in> {NetworkError, NotOk, BadJson}"
  then show "qp_result (QueryPage_deliver (fst (handleRealQuery env q imageId db)) st) =
         Some \<lparr>answer = ''Answer for: '' @ q, confidence = 0.7,
            actions = [''Check soil moisture'', ''Review weather'', ''Plan irrigation''],
            sources = [\<lparr>title = ''IMD'', url = ''https://mausam.imd.gov.in'',
                        snippet = ''Official weather service''\<rparr>]\<rparr>"
    by (simp add: handleRealQuery_failure QueryPage_deliver_def QueryPage_handleQuery_def
          QueryPage_run_def)
qed

theorem QueryPage_fixed_fallback_witness:
  "Option.bind (None :: Options option) opt_result = None
   \<and> fetch_query (env_with NetworkError)
        (request_of (env_with NetworkError) ''Any pest or bug?'' (Some ''https://storage.example/x.png''))
       \<in> {NetworkError, NotOk, BadJson}
   \<and> QueryPage_handleQuery ''Any pest or bug?'' (Some leaf_png) None =
        [QP_SetIsLoading True, QP_Sleep 600,
         QP_SetResult (Some
           \<lparr>answer = ''Answer for: Any pest or bug?'', confidence = 0.7,
            actions = [''Check soil moisture'', ''Review weather'', ''Plan irrigation''],
            sources = [\<lparr>title = ''IMD'', url = ''https://mausam.imd.gov.in'',
                        snippet = ''Official weather service''\<rparr>]\<rparr>),
         QP_SetIsLoading False]
   \<and> map_option answer (qp_result (QueryPage_deliver
         (fst (handleRealQuery (env_with NetworkError) ''Any pest or bug?''
                (Some ''https://storage.example/x.png'') db0)) qp0))
       = Some ''Answer for: Any pest or bug?''"
  using QueryPage_fixed_fallback[of None "''Any pest or bug?''" "Some leaf_png" qp0 _ _
      "env_with NetworkError" "Some ''https://storage.example/x.png''" db0]
  by (simp add: env_with_def)

text \<open>
  C10. The home page's handler writes \<open>showHelpCard\<close> only on the branch that has a
  remote result, where the flag becomes the tag of the options. On the fallback branch no
  action writes the flag: it keeps its value while the result becomes the keyword
  fallback.
\<close>

theorem fallback_leaves_help_card:
  "(Option.bind options opt_result = None \<longrightarrow>
       showHelpCard (Index_run (Index_handleQuery q f options) st) = showHelpCard st
     \<and> (\<forall>b. SetShowHelpCard b \<notin> set (Index_handleQuery q f options))
     \<and> result (Index_run (Index_handleQuery q f options) st) = selectedResult q f)
   \<and> (Option.bind options opt_result = Some r \<longrightarrow>
       showHelpCard (Index_run (Index_handleQuery q f options) st) =
         (Option.bind options opt_showHelpCard = Some True)
     \<and> result (Index_run (Index_handleQuery q f options) st) = Some r)"
proof (intro conjI impI)
  assume a: "Option.bind options opt_result = None"
  show "showHelpCard (Index_run (Index_handleQuery q f options) st) = showHelpCard st"
    by (simp add: Index_fallback_state[OF a])
  show "\<forall>b. SetShowHelpCard b \<notin> set (Index_handleQuery q f options)"
    using a by (simp add: Index_handleQuery_def)
  show "result (Index_run (Index_handleQuery q f options) st) = selectedResult q f"
    by (simp add: Index_fallback_state[OF a])
next
  assume a: "Option.bind options opt_result = Some r"
  show "showHelpCard (Index_run (Index_handleQuery q f options) st) =
         (Option.bind options opt_showHelpCard = Some True)"
    by (cases "Option.bind options opt_showHelpCard") (simp_all add: Index_remote_state[OF a])
  show "result (Index_run (Index_handleQuery q f options) st) = Some r"
    by (simp add: Index_remote_state[OF a])
qed

theorem fallback_leaves_help_card_witness:
  "Option.bind (None :: Options option) opt_result = None
   \<and> Option.bind (Some \<lparr>opt_showHelpCard = Some True, opt_result = Some r_literal\<rparr>) opt_result
       = Some r_literal
   \<and> HelpCard \<in> set (Index_render
        (Index_run (Index_handleQuery ''When to irrigate?'' None None)
          (Index_run (Index_handleQuery ''What is this weed?'' None
             (Some \<lparr>opt_showHelpCard = Some True, opt_result = Some r_literal\<rparr>)) st0)))
   \<and> result (Index_run (Index_handleQuery ''When to irrigate?'' None None)
          (Index_run (Index_handleQuery ''What is this weed?'' None
             (Some \<lparr>opt_showHelpCard = Some True, opt_result = Some r_literal\<rparr>)) st0))
       = mockResults ''irrigation''
   \<and> HelpCard \<notin> set (Index_render
        (Index_run (Index_handleQuery ''When to sow?'' None
             (Some \<lparr>opt_showHelpCard = None, opt_result = Some r_high\<rparr>))
          (Index_run (Index_handleQuery ''When to irrigate?'' None None)
            (Index_run (Index_handleQuery ''What is this weed?'' None
               (Some \<lparr>opt_showHelpCard = Some True, opt_result = Some r_literal\<rparr>)) st0))))"
proof -
  let ?o1 = "Some \<lparr>opt_showHelpCard = Some True, opt_result = Some r_literal\<rparr>"
  let ?o3 = "Some \<lparr>opt_showHelpCard = None, opt_result = Some r_high\<rparr>"
  let ?s1 = "Index_run (Index_handleQuery ''What is this weed?'' None ?o1) st0"
  let ?s2 = "Index_run (Index_handleQuery ''When to irrigate?'' None None) ?s1"
  let ?s3 = "Index_run (Index_handleQuery ''When to sow?'' None ?o3) ?s2"
  have b0: "Option.bind (None :: Options option) opt_result = None" by simp
  have b1: "Option.bind ?o1 opt_result = Some r_literal" by simp
  have b3: "Option.bind ?o3 opt_result = Some r_high" by simp
  have 1: "showHelpCard ?s1"
    using fallback_leaves_help_card[of ?o1 "''What is this weed?''" None st0 r_literal] b1
    by simp
  have 2: "showHelpCard ?s2 = showHelpCard ?s1"
    "result ?s2 = selectedResult ''When to irrigate?'' None"
    using fallback_leaves_help_card[of None "''When to irrigate?''" None ?s1 r_literal] b0
    by blast+
  have 3: "\<not> showHelpCard ?s3"
    using fallback_leaves_help_card[of ?o3 "''When to sow?''" None ?s2 r_high] b3
    by simp
  have s: "selectedResult ''When to irrigate?'' None = mockResults ''irrigation''"
    by (simp add: selectedResult_def toLowerCase_def toLowerCase_char_def Let_def)
  from b0 b1 1 2 3 s show ?thesis by (simp add: HelpCard_rendered)
qed

end
